theory Spec2Isabelle
  imports Main "HOL-Library.AList"
begin

section \<open>Python strings\<close>

text \<open>
  Strings are lists of 8-bit characters: a Python string in its encoding. \<open>py_lower\<close> and
  \<open>py_upper\<close> are the ASCII case mapping, which is what \<open>str.lower\<close> and \<open>str.upper\<close> do
  on a string of ASCII characters: the letters A..Z and a..z change, every other character
  stays. The validator upper-cases only what its pattern accepted, which is ASCII. The
  upload route lower-cases a file name before the validator sees it, and the validator
  rejects a name holding a non-ASCII character, so the ASCII mapping decides the route for
  every file name but one that Unicode lowers into ASCII (a name with the Kelvin sign).
  Column names may hold any character: they are lowered by \<open>str_lower\<close> below, where
  Unicode's mapping is a parameter.
\<close>

definition py_lower_char :: "char \<Rightarrow> char" where
  "py_lower_char c =
     (let n = (of_char c :: nat) in if 65 \<le> n \<and> n \<le> 90 then char_of (n + 32) else c)"

definition py_upper_char :: "char \<Rightarrow> char" where
  "py_upper_char c =
     (let n = (of_char c :: nat) in if 97 \<le> n \<and> n \<le> 122 then char_of (n - 32) else c)"

definition py_lower :: "string \<Rightarrow> string" where
  "py_lower s = map py_lower_char s"

definition py_upper :: "string \<Rightarrow> string" where
  "py_upper s = map py_upper_char s"

text \<open>\<open>s.replace(a, b)\<close> for one-character \<open>a\<close> and \<open>b\<close>.\<close>

definition py_replace_char :: "char \<Rightarrow> char \<Rightarrow> string \<Rightarrow> string" where
  "py_replace_char a b s = map (\<lambda>c. if c = a then b else c) s"

definition endswith :: "string \<Rightarrow> string \<Rightarrow> bool" where
  "endswith s suffix = (length suffix \<le> length s \<and> drop (length s - length suffix) s = suffix)"

text \<open>\<open>s.rfind(c)\<close>: the index of the last occurrence of \<open>c\<close>, or \<open>-1\<close>.\<close>

definition rfind :: "char \<Rightarrow> string \<Rightarrow> int" where
  "rfind c s =
     (if c \<in> set s then int (length s) - 1 - int (length (takeWhile (\<lambda>x. x \<noteq> c) (rev s)))
      else - 1)"

text \<open>
  \<open>os.path.splitext\<close> (posixpath): the extension starts at the last dot, provided that dot
  comes after the last slash and some character between the two is not a dot (leading dots
  of the file name do not start an extension). Otherwise the extension is empty.
\<close>

definition splitext :: "string \<Rightarrow> string \<times> string" where
  "splitext p =
     (let sepIndex = rfind (CHR ''/'') p;
          dotIndex = rfind (CHR ''.'') p;
          filenameIndex = nat (sepIndex + 1)
      in if dotIndex > sepIndex \<and>
            \<not> list_all (\<lambda>c. c = CHR ''.'') (take (nat dotIndex - filenameIndex) (drop filenameIndex p))
         then (take (nat dotIndex) p, drop (nat dotIndex) p)
         else (p, []))"

section \<open>Errors\<close>

text \<open>
  A raised exception is a value: its class and its message. \<open>NotFound\<close> and \<open>Forbidden\<close>
  are the warehouse client's exceptions, \<open>OSError\<close> is what \<open>subprocess.run\<close> raises when the
  command cannot be started, \<open>CalledProcessError\<close> what it raises (with \<open>check=True\<close>) on a
  non-zero exit status.
\<close>

datatype py_error =
    ValueError string
  | NotFound string
  | Forbidden string
  | BadRequest string
  | KeyError string
  | AttributeError string
  | OSError string
  | CalledProcessError int

text \<open>\<open>str(e)\<close>: the message an exception carries.\<close>

fun error_message :: "py_error \<Rightarrow> string" where
  "error_message (ValueError m) = m"
| "error_message (NotFound m) = m"
| "error_message (Forbidden m) = m"
| "error_message (BadRequest m) = m"
| "error_message (KeyError m) = m"
| "error_message (AttributeError m) = m"
| "error_message (OSError m) = m"
| "error_message (CalledProcessError rc) = ''Command returned non-zero exit status''"

section \<open>The identifier validator\<close>

definition ident_char :: "char \<Rightarrow> bool" where
  "ident_char c =
     (let n = (of_char c :: nat)
      in (97 \<le> n \<and> n \<le> 122) \<or> (65 \<le> n \<and> n \<le> 90) \<or> (48 \<le> n \<and> n \<le> 57) \<or> n = 95)"

text \<open>
  \<open>re.match(r'^[a-zA-Z0-9_]{1,128}$', s)\<close>. The character class is matched greedily from the
  start of the string, between 1 and 128 times, and the rest must be accepted by \<open>$\<close>.
  Without the MULTILINE flag Python's \<open>$\<close> matches at the end of the string and also just
  before a newline that is the last character of the string. A run of more than 128
  characters of the class cannot match: wherever the repetition stops, the next character
  is neither the end nor a newline.
\<close>

definition at_dollar :: "string \<Rightarrow> bool" where
  "at_dollar rest = (rest = [] \<or> rest = [CHR 0x0A])"

definition re_match_ident :: "string \<Rightarrow> bool" where
  "re_match_ident s =
     (let n = length (takeWhile ident_char s)
      in 1 \<le> n \<and> n \<le> 128 \<and> at_dollar (dropWhile ident_char s))"

definition sql_keywords :: "string set" where
  "sql_keywords = {''SELECT'', ''INSERT'', ''UPDATE'', ''DELETE'', ''DROP'', ''CREATE'',
                   ''ALTER'', ''EXEC'', ''UNION'', ''WHERE'', ''JOIN''}"

definition validate_table_name :: "string \<Rightarrow> py_error + string" where
  "validate_table_name table_name =
     (if table_name = [] then Inl (ValueError ''Table name cannot be empty'')
      else if \<not> re_match_ident table_name then
        Inl (ValueError ''Invalid table name. Only letters, numbers, and underscores allowed (max 128 chars)'')
      else if py_upper table_name \<in> sql_keywords then
        Inl (ValueError ''Table name cannot be a SQL keyword'')
      else Inr table_name)"

text \<open>
  What the validator's comment and message promise: a non-empty string of at most 128
  letters, digits and underscores.
\<close>

definition is_identifier :: "string \<Rightarrow> bool" where
  "is_identifier s = (s \<noteq> [] \<and> length s \<le> 128 \<and> list_all ident_char s)"

section \<open>The collaborators: warehouse, artifact store, queue\<close>

text \<open>
  The warehouse, the artifact store and the queue are external services. Their state is
  made explicit: every function that calls a client takes the state and returns the new
  one, together with its value or the exception it raised (the state reached at the
  moment of the exception is kept, since effects already made are not undone).
\<close>

type_synonym row = "string list"

record SchemaField =
  name :: string
  field_type :: string

text \<open>\<open>bigquery.Table\<close>: a table or a view (a view has a \<open>view_query\<close>).\<close>

record bq_table =
  schema :: "SchemaField list"
  rows :: "row list"
  view_query :: "string option"

datatype source_format = CSV | NEWLINE_DELIMITED_JSON | PARQUET

datatype write_disposition = WRITE_TRUNCATE | WRITE_APPEND | WRITE_EMPTY

text \<open>\<open>bigquery.LoadJobConfig\<close>; an option left out by the caller is \<open>None\<close>.\<close>

record LoadJobConfig =
  autodetect :: bool
  source_format :: source_format
  skip_leading_rows :: "nat option"
  write_disposition :: "write_disposition option"

text \<open>A queue payload: the JSON object that is serialised, as its key/value pairs.\<close>

type_synonym message = "(string \<times> string) list"

record world =
  datasets :: "string set"
  objects :: "string \<rightharpoonup> bq_table"
  denied :: "string set"
  blobs :: "string \<times> string \<rightharpoonup> string"
  published :: "(string \<times> message) list"
  queries :: "string list"
  load_jobs :: "(string \<times> LoadJobConfig) list"

text \<open>
  \<open>objects\<close> maps a fully qualified id to the table or view stored under it, \<open>denied\<close> holds
  the ids on which the warehouse refuses a create or update, \<open>blobs\<close> maps (bucket, path)
  to the stored bytes, \<open>published\<close> is the list of (topic, payload) handed to the queue,
  \<open>queries\<close> the SQL texts handed to \<open>bq_client.query\<close> and \<open>load_jobs\<close> the load calls
  issued, each in call order.

  The configuration read from the process environment, and the behaviour of the libraries
  the code calls, are parameters: the parser of the warehouse's load job, the spreadsheet
  decoder, the CSV writer and the command run by \<open>subprocess.run\<close> (whose result is the
  exit status, or the exception raised when the command cannot be started).
\<close>

record env =
  PROJECT_ID :: string
  BIGQUERY_DATASET :: string
  BUCKET_NAME :: string
  PUBSUB_TOPIC_FOR_SQL_IMPORT :: string
  INSTANCE_NAME :: string
  DATABASE_NAME :: string
  REGION :: string
  decode_file :: "source_format \<Rightarrow> nat option \<Rightarrow> string \<Rightarrow> py_error + (SchemaField list \<times> row list)"
  read_excel_to_csv :: "string \<Rightarrow> py_error + string"
  write_csv :: "string list \<Rightarrow> row list \<Rightarrow> string"
  subprocess_run :: "string list \<Rightarrow> py_error + int"
  unicode_lower :: "string \<Rightarrow> string"

definition topic_path :: "env \<Rightarrow> string" where
  "topic_path e = ''projects/'' @ PROJECT_ID e @ ''/topics/'' @ PUBSUB_TOPIC_FOR_SQL_IMPORT e"

definition get_table :: "world \<Rightarrow> string \<Rightarrow> py_error + bq_table" where
  "get_table w table_id =
     (case objects w table_id of None \<Rightarrow> Inl (NotFound table_id) | Some tbl \<Rightarrow> Inr tbl)"

definition ensure_dataset_exists :: "string \<Rightarrow> world \<Rightarrow> world" where
  "ensure_dataset_exists dataset_id w =
     (if dataset_id \<in> datasets w then w
      else w\<lparr>datasets := insert dataset_id (datasets w)\<rparr>)"

definition upload_blob :: "string \<Rightarrow> string \<Rightarrow> string \<Rightarrow> world \<Rightarrow> world" where
  "upload_blob bucket path content w = w\<lparr>blobs := (blobs w)((bucket, path) \<mapsto> content)\<rparr>"

definition publish :: "string \<Rightarrow> message \<Rightarrow> world \<Rightarrow> world" where
  "publish topic msg w = w\<lparr>published := published w @ [(topic, msg)]\<rparr>"

text \<open>
  A load job of the warehouse. The job is logged, the source is parsed, and the rows are
  written under the job's write disposition: \<open>WRITE_TRUNCATE\<close> replaces the table,
  \<open>WRITE_APPEND\<close> adds the rows to those present, \<open>WRITE_EMPTY\<close> writes only into an empty
  table. A load job whose configuration names no disposition runs under the warehouse's
  default for load jobs, \<open>WRITE_APPEND\<close>.
\<close>

definition load_disposition :: "LoadJobConfig \<Rightarrow> write_disposition" where
  "load_disposition job_config =
     (case write_disposition job_config of None \<Rightarrow> WRITE_APPEND | Some d \<Rightarrow> d)"

definition run_load_job ::
  "env \<Rightarrow> string \<Rightarrow> string \<Rightarrow> LoadJobConfig \<Rightarrow> world \<Rightarrow> (py_error + unit) \<times> world" where
  "run_load_job e content table_id job_config w =
     (let w1 = w\<lparr>load_jobs := load_jobs w @ [(table_id, job_config)]\<rparr>
      in case decode_file e (source_format job_config) (skip_leading_rows job_config) content of
           Inl err \<Rightarrow> (Inl err, w1)
         | Inr (sch, rs) \<Rightarrow>
             (case objects w1 table_id of
                None \<Rightarrow>
                  (Inr (), w1\<lparr>objects := (objects w1)(table_id \<mapsto>
                     \<lparr>schema = sch, rows = rs, view_query = None\<rparr>)\<rparr>)
              | Some old \<Rightarrow>
                  (case load_disposition job_config of
                     WRITE_TRUNCATE \<Rightarrow>
                       (Inr (), w1\<lparr>objects := (objects w1)(table_id \<mapsto>
                          \<lparr>schema = sch, rows = rs, view_query = None\<rparr>)\<rparr>)
                   | WRITE_APPEND \<Rightarrow>
                       (Inr (), w1\<lparr>objects := (objects w1)(table_id \<mapsto>
                          old\<lparr>rows := rows old @ rs\<rparr>)\<rparr>)
                   | WRITE_EMPTY \<Rightarrow>
                       (if rows old = []
                        then (Inr (), w1\<lparr>objects := (objects w1)(table_id \<mapsto>
                                old\<lparr>rows := rs\<rparr>)\<rparr>)
                        else (Inl (BadRequest table_id), w1)))))"

text \<open>\<open>load_table_from_uri\<close>: the source is the blob the URI names.\<close>

definition load_table_from_uri ::
  "env \<Rightarrow> string \<times> string \<Rightarrow> string \<Rightarrow> LoadJobConfig \<Rightarrow> world \<Rightarrow> (py_error + unit) \<times> world" where
  "load_table_from_uri e uri table_id job_config w =
     (case blobs w uri of
        None \<Rightarrow> (Inl (NotFound (''gs://'' @ fst uri @ ''/'' @ snd uri)),
                 w\<lparr>load_jobs := load_jobs w @ [(table_id, job_config)]\<rparr>)
      | Some content \<Rightarrow> run_load_job e content table_id job_config w)"

section \<open>Column role resolution\<close>

text \<open>
  A Python dict is an association list in insertion order: a lookup is \<open>map_of\<close>, an
  assignment \<open>d[k] = v\<close> is \<open>AList.update\<close> (the value is replaced where the key is present,
  else the pair is added at the end).
\<close>

definition fq_table :: "env \<Rightarrow> string \<Rightarrow> py_error + string" where
  "fq_table e table_name =
     (case validate_table_name table_name of
        Inl err \<Rightarrow> Inl err
      | Inr validated_name \<Rightarrow>
          Inr (PROJECT_ID e @ ''.'' @ BIGQUERY_DATASET e @ ''.'' @ validated_name))"

text \<open>
  \<open>str.lower\<close> on a column or candidate name. On a string of ASCII characters it is the
  ASCII mapping. A string that holds any other character is lowered by Unicode's case
  mapping, which is a parameter here (\<open>unicode_lower\<close>, on the string's encoding).
\<close>

definition is_ascii :: "char \<Rightarrow> bool" where
  "is_ascii c = ((of_char c :: nat) < 128)"

definition str_lower :: "env \<Rightarrow> string \<Rightarrow> string" where
  "str_lower e s = (if list_all is_ascii s then py_lower s else unicode_lower e s)"

type_synonym cols = "(string \<times> (string \<times> SchemaField)) list"

text \<open>The loop of \<open>_table_schema_cols\<close> over the fields, from the dict \<open>out\<close> built so far.\<close>

definition schema_cols_loop :: "env \<Rightarrow> SchemaField list \<Rightarrow> cols \<Rightarrow> cols" where
  "schema_cols_loop e fs out =
     foldl (\<lambda>out f. AList.update (str_lower e (name f)) (name f, f) out) out fs"

definition table_schema_cols :: "env \<Rightarrow> world \<Rightarrow> string \<Rightarrow> py_error + cols" where
  "table_schema_cols e w table_fq =
     (case get_table w table_fq of
        Inl err \<Rightarrow> Inl err
      | Inr tbl \<Rightarrow> Inr (schema_cols_loop e (schema tbl) []))"

text \<open>
  The loop of \<open>_pick_column\<close>. The value found is a pair, which is true as a condition
  whatever it holds, so the test \<open>if got\<close> asks whether the key is present.
\<close>

fun pick_column_loop :: "env \<Rightarrow> cols \<Rightarrow> string list \<Rightarrow> string option" where
  "pick_column_loop e cols [] = None"
| "pick_column_loop e cols (c # cs) =
     (case map_of cols (str_lower e c) of
        Some got \<Rightarrow> Some (fst got)
      | None \<Rightarrow> pick_column_loop e cols cs)"

text \<open>\<open>repr\<close> of a list of strings that hold no quote, backslash or control character.\<close>

fun py_repr_items :: "string list \<Rightarrow> string" where
  "py_repr_items [] = []"
| "py_repr_items [s] = [CHR 0x27] @ s @ [CHR 0x27]"
| "py_repr_items (s # t # ss) = [CHR 0x27] @ s @ [CHR 0x27] @ '', '' @ py_repr_items (t # ss)"

definition py_repr_list :: "string list \<Rightarrow> string" where
  "py_repr_list xs = ''['' @ py_repr_items xs @ '']''"

definition pick_column ::
  "env \<Rightarrow> cols \<Rightarrow> string list \<Rightarrow> bool \<Rightarrow> py_error + string option" where
  "pick_column e cols candidates required =
     (case pick_column_loop e cols candidates of
        Some n \<Rightarrow> Inr (Some n)
      | None \<Rightarrow>
          if required
          then Inl (ValueError (''Could not find any of columns: '' @ py_repr_list candidates))
          else Inr None)"

definition department_candidates :: "string list" where
  "department_candidates = [''department'', ''dept'', ''cost_center'', ''costcentre'', ''cost_centre'']"

definition amount_candidates :: "string list" where
  "amount_candidates = [''amount'', ''total_amount'', ''spend'', ''cost'', ''value'', ''amt'']"

definition date_candidates :: "string list" where
  "date_candidates =
     [''date'', ''txn_date'', ''transaction_date'', ''post_date'', ''doc_date'', ''month'', ''period'']"

definition expense_type_candidates :: "string list" where
  "expense_type_candidates = [''expense_type'', ''category'', ''type'', ''gl_code'']"

text \<open>The dict \<open>_detect_finance_columns\<close> returns; a value may be \<open>None\<close>.\<close>

record finance_columns =
  department :: "string option"
  amount :: "string option"
  date :: "string option"
  expense_type :: "string option"

definition detect_finance_columns :: "env \<Rightarrow> world \<Rightarrow> string \<Rightarrow> py_error + finance_columns" where
  "detect_finance_columns e w table_fq =
     (case table_schema_cols e w table_fq of
        Inl err \<Rightarrow> Inl err
      | Inr cols \<Rightarrow>
          (case pick_column e cols department_candidates True of
             Inl err \<Rightarrow> Inl err
           | Inr dep \<Rightarrow>
               (case pick_column e cols amount_candidates True of
                  Inl err \<Rightarrow> Inl err
                | Inr amt \<Rightarrow>
                    (case pick_column e cols date_candidates True of
                       Inl err \<Rightarrow> Inl err
                     | Inr dat \<Rightarrow>
                         (case pick_column e cols expense_type_candidates False of
                            Inl err \<Rightarrow> Inl err
                          | Inr expense \<Rightarrow>
                              Inr \<lparr>department = dep, amount = amt, date = dat,
                                   expense_type = expense\<rparr>)))))"

section \<open>The report catalog\<close>

text \<open>
  A template is the text of a format string cut at its replacement fields. \<open>str.format\<close>
  with keyword arguments replaces each field by its argument and raises \<open>KeyError\<close> for a
  field that has none; text put in is not scanned again.
\<close>

datatype piece = Lit string | Field string

fun py_format :: "piece list \<Rightarrow> (string \<times> string) list \<Rightarrow> py_error + string" where
  "py_format [] kwargs = Inr []"
| "py_format (Lit s # ps) kwargs =
     (case py_format ps kwargs of Inl err \<Rightarrow> Inl err | Inr r \<Rightarrow> Inr (s @ r))"
| "py_format (Field k # ps) kwargs =
     (case map_of kwargs k of
        None \<Rightarrow> Inl (KeyError k)
      | Some v \<Rightarrow> (case py_format ps kwargs of Inl err \<Rightarrow> Inl err | Inr r \<Rightarrow> Inr (v @ r)))"

record report =
  label :: string
  sql :: "piece list"

text \<open>The line break and indentation between two lines of a template.\<close>

definition nl8 :: string where
  "nl8 = CHR 0x0A # ''        ''"

definition REPORTS :: "(string \<times> report) list" where
  "REPORTS =
    [(''dept_totals'',
      \<lparr>label = ''Total spend per department (6 months)'',
       sql = [Lit (nl8 @ ''SELECT ''), Field ''department'',
              Lit '' AS department, SUM('', Field ''amount'',
              Lit ('') AS total_spent'' @ nl8 @ ''FROM `''), Field ''table_fq'',
              Lit (''`'' @ nl8 @ ''GROUP BY department'' @ nl8 @
                   ''ORDER BY total_spent DESC'' @ nl8)]\<rparr>),
     (''monthly_trend'',
      \<lparr>label = ''Monthly spend trend'',
       sql = [Lit (nl8 @ ''SELECT FORMAT_DATE('%Y-%m', DATE(''), Field ''date'',
              Lit ('')) AS month,'' @ nl8 @ ''       SUM(''), Field ''amount'',
              Lit ('') AS total_spent'' @ nl8 @ ''FROM `''), Field ''table_fq'',
              Lit (''`'' @ nl8 @ ''GROUP BY month'' @ nl8 @ ''ORDER BY month'' @ nl8)]\<rparr>),
     (''top_expense_types'',
      \<lparr>label = ''Top 5 expense categories'',
       sql = [Lit (nl8 @ ''SELECT ''), Field ''expense_type'',
              Lit '' AS expense_type, SUM('', Field ''amount'',
              Lit ('') AS total_spent'' @ nl8 @ ''FROM `''), Field ''table_fq'',
              Lit (''`'' @ nl8 @ ''GROUP BY expense_type'' @ nl8 @
                   ''ORDER BY total_spent DESC'' @ nl8 @ ''LIMIT 5'' @ nl8)]\<rparr>),
     (''dept_month_matrix'',
      \<lparr>label = ''Department spend by month'',
       sql = [Lit (nl8 @ ''SELECT FORMAT_DATE('%Y-%m', DATE(''), Field ''date'',
              Lit ('')) AS month,'' @ nl8 @ ''       ''), Field ''department'',
              Lit ('' AS department,'' @ nl8 @ ''       SUM(''), Field ''amount'',
              Lit ('') AS total_spent'' @ nl8 @ ''FROM `''), Field ''table_fq'',
              Lit (''`'' @ nl8 @ ''GROUP BY month, department'' @ nl8 @
                   ''ORDER BY month, department'' @ nl8)]\<rparr>),
     (''avg_monthly_by_dept'',
      \<lparr>label = ''Average monthly spend per department'',
       sql = [Lit (nl8 @ ''WITH monthly AS ('' @ nl8 @ ''  SELECT ''), Field ''department'',
              Lit ('' AS department,'' @ nl8 @ ''         FORMAT_DATE('%Y-%m', DATE(''),
              Field ''date'',
              Lit ('')) AS month,'' @ nl8 @ ''         SUM(''), Field ''amount'',
              Lit ('') AS monthly_spent'' @ nl8 @ ''  FROM `''), Field ''table_fq'',
              Lit (''`'' @ nl8 @ ''  GROUP BY department, month'' @ nl8 @ '')'' @ nl8 @
                   ''SELECT department, AVG(monthly_spent) AS avg_monthly_spent'' @ nl8 @
                   ''FROM monthly'' @ nl8 @ ''GROUP BY department'' @ nl8 @
                   ''ORDER BY avg_monthly_spent DESC'' @ nl8)]\<rparr>)]"

text \<open>How \<open>format\<close> prints an argument that may be \<open>None\<close>, and \<open>x or "NULL"\<close>.\<close>

definition py_str :: "string option \<Rightarrow> string" where
  "py_str v = (case v of None \<Rightarrow> ''None'' | Some s \<Rightarrow> s)"

definition or_NULL :: "string option \<Rightarrow> string" where
  "or_NULL v = (case v of None \<Rightarrow> ''NULL'' | Some s \<Rightarrow> if s = [] then ''NULL'' else s)"

definition format_kwargs :: "string \<Rightarrow> finance_columns \<Rightarrow> (string \<times> string) list" where
  "format_kwargs table_fq cols =
     [(''table_fq'', table_fq),
      (''department'', py_str (department cols)),
      (''amount'', py_str (amount cols)),
      (''date'', py_str (date cols)),
      (''expense_type'', or_NULL (expense_type cols))]"

section \<open>The view publisher\<close>

text \<open>
  \<open>_create_or_replace_view\<close>: an existing object gets the new defining query and is
  updated; when the lookup raises \<open>NotFound\<close> a new object with that query is created.
  The warehouse refuses the write for an id it denies.
\<close>

definition update_table :: "string \<Rightarrow> bq_table \<Rightarrow> world \<Rightarrow> (py_error + bq_table) \<times> world" where
  "update_table view_id tbl w =
     (if view_id \<in> denied w then (Inl (Forbidden view_id), w)
      else (Inr tbl, w\<lparr>objects := (objects w)(view_id \<mapsto> tbl)\<rparr>))"

definition create_table :: "string \<Rightarrow> bq_table \<Rightarrow> world \<Rightarrow> (py_error + bq_table) \<times> world" where
  "create_table view_id tbl w =
     (if view_id \<in> denied w then (Inl (Forbidden view_id), w)
      else (Inr tbl, w\<lparr>objects := (objects w)(view_id \<mapsto> tbl)\<rparr>))"

definition create_or_replace_view ::
  "string \<Rightarrow> string \<Rightarrow> world \<Rightarrow> (py_error + bq_table) \<times> world" where
  "create_or_replace_view view_id sql_text w =
     (case get_table w view_id of
        Inr existing \<Rightarrow> update_table view_id (existing\<lparr>view_query := Some sql_text\<rparr>) w
      | Inl (NotFound m) \<Rightarrow>
          create_table view_id \<lparr>schema = [], rows = [], view_query = Some sql_text\<rparr> w
      | Inl err \<Rightarrow> (Inl err, w))"

text \<open>The loop over the catalog; \<open>created\<close> is the dict built so far.\<close>

fun publish_loop ::
  "env \<Rightarrow> string \<Rightarrow> string \<Rightarrow> finance_columns \<Rightarrow> (string \<times> report) list \<Rightarrow>
   (string \<times> string) list \<Rightarrow> world \<Rightarrow> (py_error + (string \<times> string) list) \<times> world" where
  "publish_loop e validated_table_name table_fq cols [] created w = (Inr created, w)"
| "publish_loop e validated_table_name table_fq cols ((rid, meta) # rest) created w =
     (let view_name = validated_table_name @ ''__'' @ rid @ ''_v'';
          view_fq = PROJECT_ID e @ ''.'' @ BIGQUERY_DATASET e @ ''.'' @ view_name
      in case py_format (sql meta) (format_kwargs table_fq cols) of
           Inl err \<Rightarrow> (Inl err, w)
         | Inr sql_text \<Rightarrow>
             (case create_or_replace_view view_fq sql_text w of
                (Inl err, w') \<Rightarrow> (Inl err, w')
              | (Inr v, w') \<Rightarrow>
                  publish_loop e validated_table_name table_fq cols rest
                    (AList.update rid view_fq created) w'))"

definition publish_looker_views_for_table ::
  "env \<Rightarrow> string \<Rightarrow> world \<Rightarrow> (py_error + (string \<times> string) list) \<times> world" where
  "publish_looker_views_for_table e table_name w0 =
     (let w = ensure_dataset_exists (BIGQUERY_DATASET e) w0
      in case validate_table_name table_name of
           Inl err \<Rightarrow> (Inl err, w)
         | Inr validated_table_name \<Rightarrow>
             (let table_fq = PROJECT_ID e @ ''.'' @ BIGQUERY_DATASET e @ ''.'' @ validated_table_name
              in case detect_finance_columns e w table_fq of
                   Inl err \<Rightarrow> (Inl err, w)
                 | Inr cols \<Rightarrow> publish_loop e validated_table_name table_fq cols REPORTS [] w))"

section \<open>The loader and the upload route\<close>

text \<open>
  Files of the request live in memory here: a file is its bytes, and saving it under
  \<open>/tmp\<close> and reading it back gives the same bytes. Saving is taken to succeed (it fails
  for a file name with a directory part that \<open>/tmp\<close> lacks, which no validated name has).
\<close>

definition load_to_bigquery ::
  "env \<Rightarrow> string \<Rightarrow> string \<Rightarrow> string \<Rightarrow> world \<Rightarrow> (py_error + unit) \<times> world" where
  "load_to_bigquery e content filename table_name w0 =
     (let w = ensure_dataset_exists (BIGQUERY_DATASET e) w0;
          ext = py_lower (snd (splitext filename))
      in case (if ext \<in> {''.xls'', ''.xlsx''} then
                 (case read_excel_to_csv e content of
                    Inl err \<Rightarrow> Inl err
                  | Inr csv \<Rightarrow> Inr (csv, CSV, 1))
               else if ext = ''.csv'' then Inr (content, CSV, 1)
               else if ext = ''.json'' then Inr (content, NEWLINE_DELIMITED_JSON, 0)
               else if ext = ''.parquet'' then Inr (content, PARQUET, 0)
               else Inl (ValueError ''Unsupported file type. Use CSV, Excel, JSON, or Parquet.'')) of
           Inl err \<Rightarrow> (Inl err, w)
         | Inr (tmp, fmt, skip_rows) \<Rightarrow>
             (let w1 = upload_blob (BUCKET_NAME e) (''uploads/'' @ filename) tmp w;
                  table_id = PROJECT_ID e @ ''.'' @ BIGQUERY_DATASET e @ ''.'' @ table_name;
                  job_config = \<lparr>autodetect = True, source_format = fmt,
                                skip_leading_rows = Some skip_rows,
                                write_disposition = Some WRITE_TRUNCATE\<rparr>
              in run_load_job e tmp table_id job_config w1))"

text \<open>
  \<open>run_analysis\<close> of the web application. The result of its query text
  (\<open>SELECT * ... LIMIT 10\<close>) is taken to be the first ten rows of the table; the second
  run of the query writes them to the \<open>_analysis\<close> table, replacing what it held.
\<close>

definition run_analysis :: "env \<Rightarrow> string \<Rightarrow> world \<Rightarrow> (py_error + string) \<times> world" where
  "run_analysis e table_name w0 =
     (let w = ensure_dataset_exists (BIGQUERY_DATASET e) w0;
          table_id = PROJECT_ID e @ ''.'' @ BIGQUERY_DATASET e @ ''.'' @ table_name
      in case get_table w table_id of
           Inl err \<Rightarrow> (Inl (ValueError (''BigQuery table '' @ table_name @ '' not found.'')), w)
         | Inr tbl \<Rightarrow>
             (let query = ''SELECT * FROM `'' @ table_id @ ''` LIMIT 10'';
                  w1 = w\<lparr>queries := queries w @ [query]\<rparr>;
                  headers = map name (schema tbl);
                  results = take 10 (rows tbl);
                  w2 = upload_blob (BUCKET_NAME e)
                         (''analysis_results/'' @ table_name @ ''_results.csv'')
                         (write_csv e headers results) w1;
                  destination_table = table_id @ ''_analysis'';
                  w3 = w2\<lparr>queries := queries w2 @ [query],
                          objects := (objects w2)(destination_table \<mapsto>
                            \<lparr>schema = schema tbl, rows = results, view_query = None\<rparr>)\<rparr>
              in (Inr table_name, w3)))"

datatype response =
    Success string string
  | Failure nat string
  | SendFile string string
  | Page

text \<open>
  The dispatch on the extension inside the \<open>try\<close> block of \<open>index\<close>. Its value is \<open>Some\<close>
  response where the source returns at once (the unsupported extension) and \<open>None\<close> where
  control goes on to the analysis.
\<close>

definition route_by_extension ::
  "env \<Rightarrow> string \<Rightarrow> string \<Rightarrow> string \<Rightarrow> string \<Rightarrow> world \<Rightarrow>
   (py_error + response option) \<times> world" where
  "route_by_extension e file_ext filename content table_name w =
     (if file_ext = ''.sql'' then
        (let w1 = upload_blob (BUCKET_NAME e) (''uploads/'' @ filename) content w;
             message_data = [(''name'', filename), (''bucket'', BUCKET_NAME e)];
             w2 = publish (topic_path e) message_data w1
         in (Inr None, w2))
      else if file_ext \<in> {''.xlsx'', ''.xls''} then
        (case read_excel_to_csv e content of
           Inl err \<Rightarrow> (Inl err, w)
         | Inr csv \<Rightarrow>
             (case load_to_bigquery e csv (table_name @ ''.csv'') table_name w of
                (Inl err, w') \<Rightarrow> (Inl err, w')
              | (Inr u, w') \<Rightarrow> (Inr None, w')))
      else if file_ext \<in> {''.csv'', ''.json'', ''.parquet''} then
        (case load_to_bigquery e content filename table_name w of
           (Inl err, w') \<Rightarrow> (Inl err, w')
         | (Inr u, w') \<Rightarrow> (Inr None, w'))
      else
        (Inr (Some (Failure 400
           ''Unsupported file format. Supported: CSV, Excel, JSON, Parquet, SQL'')), w))"

text \<open>The \<open>try\<close> block of \<open>index\<close>.\<close>

definition index_try ::
  "env \<Rightarrow> string \<Rightarrow> string \<Rightarrow> world \<Rightarrow> (py_error + response) \<times> world" where
  "index_try e filename content w =
     (let file_ext = py_lower (snd (splitext filename));
          table_name = py_lower (py_replace_char (CHR '' '') (CHR ''_'') (fst (splitext filename)))
      in case validate_table_name table_name of
           Inl err \<Rightarrow> (Inl err, w)
         | Inr table_name \<Rightarrow>
             (case route_by_extension e file_ext filename content table_name w of
                (Inl err, w') \<Rightarrow> (Inl err, w')
              | (Inr (Some resp), w') \<Rightarrow> (Inr resp, w')
              | (Inr None, w') \<Rightarrow>
                  (case run_analysis e table_name w' of
                     (Inl err, w'') \<Rightarrow> (Inl err, w'')
                   | (Inr analysis_result, w'') \<Rightarrow> (Inr (Success filename table_name), w''))))"

text \<open>
  The POST branch of \<open>index\<close>, for a request that passed the authentication and rate
  limit decorators. A missing file and a file with an empty name both count as no file.
\<close>

definition index :: "env \<Rightarrow> (string \<times> string) option \<Rightarrow> world \<Rightarrow> response \<times> world" where
  "index e uploaded_file w =
     (case uploaded_file of
        None \<Rightarrow> (Failure 400 ''No file uploaded'', w)
      | Some (filename, content) \<Rightarrow>
          if filename = [] then (Failure 400 ''No file uploaded'', w)
          else
            (case index_try e filename content w of
               (Inr resp, w') \<Rightarrow> (resp, w')
             | (Inl (ValueError m), w') \<Rightarrow> (Failure 400 m, w')
             | (Inl err, w') \<Rightarrow>
                 (Failure 500 (''Error processing file: '' @ error_message err), w')))"

text \<open>\<open>/download_bq\<close>: the table name is the query parameter, as it came.\<close>

definition download_bq :: "env \<Rightarrow> string option \<Rightarrow> world \<Rightarrow> response \<times> world" where
  "download_bq e table_param w =
     (case table_param of
        None \<Rightarrow> (Failure 400 ''Missing ?table parameter.'', w)
      | Some table_name \<Rightarrow>
          if table_name = [] then (Failure 400 ''Missing ?table parameter.'', w)
          else
            (case run_analysis e table_name w of
               (Inl (ValueError m), w1) \<Rightarrow> (Failure 400 m, w1)
             | (Inl err, w1) \<Rightarrow> (Failure 500 (error_message err), w1)
             | (Inr t, w1) \<Rightarrow>
                 (let analysis_id = PROJECT_ID e @ ''.'' @ BIGQUERY_DATASET e @ ''.'' @
                                     table_name @ ''_analysis'';
                      query = ''SELECT * FROM `'' @ analysis_id @ ''`'';
                      w2 = w1\<lparr>queries := queries w1 @ [query]\<rparr>
                  in case get_table w2 analysis_id of
                       Inl err \<Rightarrow> (Failure 500 (error_message err), w2)
                     | Inr results \<Rightarrow>
                         (SendFile (table_name @ ''_analysis.csv'')
                            (write_csv e (map name (schema results)) (rows results)), w2))))"

section \<open>The storage-triggered function\<close>

text \<open>\<open>process_upload(event, context)\<close>; the event carries \<open>name\<close> and \<open>bucket\<close>.\<close>

definition process_upload :: "env \<Rightarrow> string \<Rightarrow> string \<Rightarrow> world \<Rightarrow> (py_error + unit) \<times> world" where
  "process_upload e file_name bucket_name w =
     (if endswith file_name ''.csv'' \<or> endswith file_name ''.json'' then
        (let table_id = PROJECT_ID e @ ''.'' @ BIGQUERY_DATASET e @ ''.'' @
                         py_replace_char (CHR ''.'') (CHR ''_'') file_name;
             job_config = \<lparr>autodetect = True,
                           source_format = (if endswith file_name ''.csv'' then CSV
                                            else NEWLINE_DELIMITED_JSON),
                           skip_leading_rows = None,
                           write_disposition = None\<rparr>
         in load_table_from_uri e (bucket_name, file_name) table_id job_config w)
      else if endswith file_name ''.sql'' then
        (let message_data = [(''name'', file_name), (''bucket'', bucket_name)]
         in (Inr (), publish (topic_path e) message_data w))
      else (Inr (), w))"

section \<open>The restore worker\<close>

text \<open>
  \<open>import_sql(event, context)\<close>. Its input here is the decoded payload, a JSON object
  with string values; \<open>get\<close> gives \<open>None\<close> for a key the object lacks. The worker's effects
  are the lines it prints; the restore itself is the command handed to \<open>subprocess.run\<close>.
\<close>

datatype log_line =
    Skipping_non_SQL_file string
  | Import_completed_for string
  | Error_importing string py_error

text \<open>The message of the error raised by \<open>None.endswith\<close>.\<close>

definition no_endswith :: string where
  "no_endswith =
     [CHR 0x27] @ ''NoneType'' @ [CHR 0x27] @ '' object has no attribute '' @
     [CHR 0x27] @ ''endswith'' @ [CHR 0x27]"

definition import_command :: "env \<Rightarrow> string \<Rightarrow> string list" where
  "import_command e gcs_path =
     [''gcloud'', ''sql'', ''import'', ''sql'', INSTANCE_NAME e, gcs_path,
      ''--project'', PROJECT_ID e,
      ''--database'', DATABASE_NAME e,
      ''--region='' @ REGION e]"

definition import_sql :: "env \<Rightarrow> message \<Rightarrow> (py_error + unit) \<times> log_line list" where
  "import_sql e pubsub_message =
     (let file_name = map_of pubsub_message ''name'';
          bucket_name = map_of pubsub_message ''bucket''
      in case file_name of
           None \<Rightarrow> (Inl (AttributeError no_endswith), [])
         | Some fn \<Rightarrow>
             if \<not> endswith fn ''.sql'' then (Inr (), [Skipping_non_SQL_file fn])
             else
               (let gcs_path = ''gs://'' @ py_str bucket_name @ ''/'' @ fn
                in case subprocess_run e (import_command e gcs_path) of
                     Inl err \<Rightarrow> (Inl err, [])
                   | Inr returncode \<Rightarrow>
                       if returncode \<noteq> 0
                       then (Inr (), [Error_importing fn (CalledProcessError returncode)])
                       else (Inr (), [Import_completed_for fn])))"

section \<open>Notions of the specification\<close>

text \<open>
  A candidate exists in a schema when some column's name equals it up to case. A role is
  resolved as specified when the result is a column (in its own casing) matching the first
  candidate, in list order, that exists, and is \<open>None\<close> when no candidate exists.
\<close>

definition has_column :: "env \<Rightarrow> SchemaField list \<Rightarrow> string \<Rightarrow> bool" where
  "has_column e fs c = (\<exists>f\<in>set fs. str_lower e (name f) = str_lower e c)"

definition resolves ::
  "env \<Rightarrow> SchemaField list \<Rightarrow> string list \<Rightarrow> string option \<Rightarrow> bool" where
  "resolves e fs candidates result =
     (case find (has_column e fs) candidates of
        None \<Rightarrow> result = None
      | Some c \<Rightarrow>
          (\<exists>f\<in>set fs. str_lower e (name f) = str_lower e c \<and> result = Some (name f)))"

text \<open>
  Two results, for two schemas of the same length, name the same column when they are the
  names found at one position of the two schemas.
\<close>

definition same_column ::
  "SchemaField list \<Rightarrow> SchemaField list \<Rightarrow> string option \<Rightarrow> string option \<Rightarrow> bool" where
  "same_column fs fs' r r' =
     (case r of
        None \<Rightarrow> r' = None
      | Some n \<Rightarrow> (\<exists>p\<in>set (zip fs fs'). n = name (fst p) \<and> r' = Some (name (snd p))))"

text \<open>The view id the publisher derives for a report of a table.\<close>

definition view_id :: "env \<Rightarrow> string \<Rightarrow> string \<Rightarrow> string" where
  "view_id e table_name rid =
     PROJECT_ID e @ ''.'' @ BIGQUERY_DATASET e @ ''.'' @ table_name @ ''__'' @ rid @ ''_v''"

text \<open>
  The required roles with their candidate lists. A role is missing from a schema when none
  of its candidates exists there. The resolver's error message names a role when the
  candidate list it prints starts with the role's own name.
\<close>

definition required_roles :: "(string \<times> string list) list" where
  "required_roles =
     [(''department'', department_candidates),
      (''amount'', amount_candidates),
      (''date'', date_candidates)]"

definition missing :: "env \<Rightarrow> SchemaField list \<Rightarrow> string list \<Rightarrow> bool" where
  "missing e fs candidates = (\<forall>c\<in>set candidates. \<not> has_column e fs c)"

definition names_role :: "string \<Rightarrow> string \<Rightarrow> bool" where
  "names_role msg role =
     (let p = ''Could not find any of columns: ['' @ [CHR 0x27] @ role @ [CHR 0x27]
      in take (length p) msg = p)"

text \<open>
  The dict the publisher's loop builds from \<open>created\<close> over a catalog, and the mapping
  specified for the fixed catalog: one entry per report, its view named
  \<open>{table}__{reportId}_v\<close> in the project's dataset.
\<close>

definition expected_views ::
  "env \<Rightarrow> string \<Rightarrow> (string \<times> report) list \<Rightarrow> (string \<times> string) list \<Rightarrow>
   (string \<times> string) list" where
  "expected_views e t reports created =
     foldl (\<lambda>c rm. AList.update (fst rm) (view_id e t (fst rm)) c) created reports"

definition full_catalog :: "env \<Rightarrow> string \<Rightarrow> (string \<times> string) list" where
  "full_catalog e t =
     map (\<lambda>rid. (rid, view_id e t rid))
       [''dept_totals'', ''monthly_trend'', ''top_expense_types'', ''dept_month_matrix'',
        ''avg_monthly_by_dept'']"

section \<open>Example states\<close>

text \<open>
  A toy parser for the examples: every character of the source is one row of one cell,
  after the rows to skip.
\<close>

definition ex_decode ::
  "source_format \<Rightarrow> nat option \<Rightarrow> string \<Rightarrow> py_error + (SchemaField list \<times> row list)" where
  "ex_decode fmt skip content =
     Inr ([\<lparr>name = ''c'', field_type = ''STRING''\<rparr>],
          map (\<lambda>c. [[c]]) (drop (case skip of None \<Rightarrow> 0 | Some n \<Rightarrow> n) content))"

definition ex_env :: env where
  "ex_env =
     \<lparr>PROJECT_ID = ''proj'', BIGQUERY_DATASET = ''analysis_dataset'',
      BUCKET_NAME = ''bkt'', PUBSUB_TOPIC_FOR_SQL_IMPORT = ''sql-import-topic'',
      INSTANCE_NAME = ''data-analysis-db'', DATABASE_NAME = ''data_analysis'',
      REGION = ''asia-southeast1'',
      decode_file = ex_decode,
      read_excel_to_csv = (\<lambda>content. Inr content),
      write_csv = (\<lambda>headers rs. concat headers @ concat (concat rs)),
      subprocess_run = (\<lambda>args. Inr 0),
      unicode_lower = (\<lambda>s. s)\<rparr>"

definition empty_world :: world where
  "empty_world =
     \<lparr>datasets = {}, objects = Map.empty, denied = {}, blobs = Map.empty,
      published = [], queries = [], load_jobs = []\<rparr>"

definition table_of :: "string list \<Rightarrow> bq_table" where
  "table_of column_names =
     \<lparr>schema = map (\<lambda>n. \<lparr>name = n, field_type = ''STRING''\<rparr>) column_names,
      rows = [], view_query = None\<rparr>"

definition world_with :: "string \<Rightarrow> bq_table \<Rightarrow> world" where
  "world_with table_id tbl = empty_world\<lparr>objects := [table_id \<mapsto> tbl]\<rparr>"

section \<open>Properties: strings and the identifier validator\<close>

text \<open>
  Case mapping on a character, bit by bit: adding 32 to a capital letter sets bit 5,
  subtracting 32 from a small letter clears it. In this form the mapping of a literal
  string is computed by rewriting.
\<close>

lemma py_lower_char_bits:
  "py_lower_char c = (if 65 \<le> (of_char c :: nat) \<and> (of_char c :: nat) \<le> 90
     then (case c of Char b0 b1 b2 b3 b4 b5 b6 b7 \<Rightarrow> Char b0 b1 b2 b3 b4 True b6 b7) else c)"
proof (cases "65 \<le> (of_char c :: nat) \<and> (of_char c :: nat) \<le> 90")
  case False then show ?thesis by (auto simp add: py_lower_char_def Let_def)
next
  case True
  obtain b0 b1 b2 b3 b4 b5 b6 b7 where c: "c = Char b0 b1 b2 b3 b4 b5 b6 b7" by (cases c)
  have "of_char (py_lower_char c) = (of_char c + 32 :: nat)" using True by (simp add: py_lower_char_def)
  moreover have "(of_char (Char b0 b1 b2 b3 b4 True b6 b7) :: nat) = of_char c + 32"
    using True unfolding c
    by (cases b0; cases b1; cases b2; cases b3; cases b4; cases b5; cases b6; cases b7)
       (simp_all add: of_char_def)
  ultimately have "of_char (py_lower_char c) = (of_char (Char b0 b1 b2 b3 b4 True b6 b7) :: nat)" by simp
  then have "py_lower_char c = Char b0 b1 b2 b3 b4 True b6 b7" by (simp only: of_char_eq_iff)
  with True c show ?thesis by simp
qed

lemma py_upper_char_bits:
  "py_upper_char c = (if 97 \<le> (of_char c :: nat) \<and> (of_char c :: nat) \<le> 122
     then (case c of Char b0 b1 b2 b3 b4 b5 b6 b7 \<Rightarrow> Char b0 b1 b2 b3 b4 False b6 b7) else c)"
proof (cases "97 \<le> (of_char c :: nat) \<and> (of_char c :: nat) \<le> 122")
  case False then show ?thesis by (auto simp add: py_upper_char_def Let_def)
next
  case True
  obtain b0 b1 b2 b3 b4 b5 b6 b7 where c: "c = Char b0 b1 b2 b3 b4 b5 b6 b7" by (cases c)
  have "of_char (py_upper_char c) = (of_char c - 32 :: nat)" using True by (auto simp add: py_upper_char_def Let_def)
  moreover have "(of_char (Char b0 b1 b2 b3 b4 False b6 b7) :: nat) = of_char c - 32"
    using True unfolding c
    by (cases b0; cases b1; cases b2; cases b3; cases b4; cases b5; cases b6; cases b7)
       (simp_all add: of_char_def)
  ultimately have "of_char (py_upper_char c) = (of_char (Char b0 b1 b2 b3 b4 False b6 b7) :: nat)" by simp
  then have "py_upper_char c = Char b0 b1 b2 b3 b4 False b6 b7" by (simp only: of_char_eq_iff)
  with True c show ?thesis by simp
qed

lemmas eval_case = py_lower_def py_upper_def py_lower_char_bits py_upper_char_bits

lemmas eval_lower = str_lower_def is_ascii_def eval_case

lemma not_ident_newline: "\<not> ident_char (CHR 0x0A)"
  by (simp add: ident_char_def)

lemma not_ident_dot: "\<not> ident_char (CHR ''.'')"
  by (simp add: ident_char_def)

text \<open>
  The pattern accepts the identifiers, and the identifiers followed by one newline, and
  nothing else.
\<close>

lemma takeWhile_all: "list_all P xs \<Longrightarrow> takeWhile P xs = xs \<and> dropWhile P xs = []"
  by (induction xs) auto

lemma re_match_ident_iff:
  "re_match_ident s \<longleftrightarrow> is_identifier s \<or> (\<exists>b. s = b @ [CHR 0x0A] \<and> is_identifier b)"
proof
  assume m: "re_match_ident s"
  let ?t = "takeWhile ident_char s" and ?d = "dropWhile ident_char s"
  have s: "s = ?t @ ?d" by simp
  have t: "list_all ident_char ?t" by (simp add: list_all_iff) (meson set_takeWhileD)
  from m have n: "1 \<le> length ?t" "length ?t \<le> 128" and d: "?d = [] \<or> ?d = [CHR 0x0A]"
    by (simp_all add: re_match_ident_def at_dollar_def Let_def)
  from d show "is_identifier s \<or> (\<exists>b. s = b @ [CHR 0x0A] \<and> is_identifier b)"
  proof
    assume "?d = []"
    then have "s = ?t" using s by (metis append_Nil2)
    then have "is_identifier s" using t n unfolding is_identifier_def by (metis length_0_conv not_one_le_zero)
    then show ?thesis ..
  next
    assume "?d = [CHR 0x0A]"
    then have "s = ?t @ [CHR 0x0A]" using s by metis
    moreover have "is_identifier ?t" using t n unfolding is_identifier_def by (metis length_0_conv not_one_le_zero)
    ultimately show ?thesis by blast
  qed
next
  assume "is_identifier s \<or> (\<exists>b. s = b @ [CHR 0x0A] \<and> is_identifier b)"
  then show "re_match_ident s"
  proof
    assume i: "is_identifier s"
    then have tw: "takeWhile ident_char s = s" "dropWhile ident_char s = []"
      by (simp_all add: is_identifier_def takeWhile_all)
    from i have "1 \<le> length s \<and> length s \<le> 128"
      by (cases s) (simp_all add: is_identifier_def)
    then show ?thesis by (simp add: re_match_ident_def at_dollar_def tw)
  next
    assume "\<exists>b. s = b @ [CHR 0x0A] \<and> is_identifier b"
    then obtain b where s: "s = b @ [CHR 0x0A]" and i: "is_identifier b" by blast
    from i have a: "\<forall>x\<in>set b. ident_char x" by (simp add: is_identifier_def list_all_iff)
    have tw: "takeWhile ident_char s = b" "dropWhile ident_char s = [CHR 0x0A]"
      unfolding s using a
      by (simp_all add: takeWhile_append2 dropWhile_append2 not_ident_newline)
    from i have "1 \<le> length b \<and> length b \<le> 128"
      by (cases b) (simp_all add: is_identifier_def)
    then show ?thesis by (simp add: re_match_ident_def at_dollar_def tw)
  qed
qed

text \<open>
  The validator returns its argument or raises \<open>ValueError\<close>; it returns exactly the strings
  the pattern accepts whose upper-cased form is no keyword.
\<close>

lemma validate_table_name_Inr_iff:
  "validate_table_name s = Inr t \<longleftrightarrow> t = s \<and> re_match_ident s \<and> py_upper s \<notin> sql_keywords"
  by (auto simp add: validate_table_name_def re_match_ident_def)

lemma validate_table_name_cases:
  "validate_table_name s = Inr s \<or> (\<exists>m. validate_table_name s = Inl (ValueError m))"
  by (simp add: validate_table_name_def)

lemma validate_table_name_identifier:
  "is_identifier s \<Longrightarrow> py_upper s \<notin> sql_keywords \<Longrightarrow> validate_table_name s = Inr s"
  by (simp add: validate_table_name_Inr_iff re_match_ident_iff)

lemma validate_table_name_rejects:
  "\<not> is_identifier s \<Longrightarrow> \<forall>b. s = b @ [CHR 0x0A] \<longrightarrow> \<not> is_identifier b 
    \<Longrightarrow> \<exists>m. validate_table_name s = Inl (ValueError m)"
  using validate_table_name_cases[of s] by (auto simp add: validate_table_name_Inr_iff re_match_ident_iff)

lemma validate_table_name_keyword:
  "py_upper s \<in> sql_keywords \<Longrightarrow> \<exists>m. validate_table_name s = Inl (ValueError m)"
  using validate_table_name_cases[of s] by (auto simp add: validate_table_name_Inr_iff)

lemmas eval_validate = validate_table_name_def re_match_ident_def at_dollar_def ident_char_def
  sql_keywords_def eval_case

text \<open>
  Claim C1. The validator is to return unchanged every string of 1 to 128 letters, digits
  and underscores that is not a reserved keyword, and to reject every other string. The
  lemmas above show both halves for every string but those of one shape: an identifier
  followed by one newline. There the pattern's \<open>$\<close> accepts the newline, and the validator
  returns the string, newline included, although it is no identifier.
\<close>

theorem validate_table_name_trailing_newline:
  "validate_table_name (''abc'' @ [CHR 0x0A]) = Inr (''abc'' @ [CHR 0x0A])
   \<and> \<not> is_identifier (''abc'' @ [CHR 0x0A])"
  by (simp add: eval_validate is_identifier_def)

section \<open>Properties: column role resolution\<close>

text \<open>
  The index built from a schema maps a key to the last column whose lower-cased name is
  the key; the loop over the candidates returns the entry of the first candidate that has
  one.
\<close>

lemma schema_cols_loop_snoc:
  "schema_cols_loop e (fs @ [f]) out = AList.update (str_lower e (name f)) (name f, f) (schema_cols_loop e fs out)"
  by (simp add: schema_cols_loop_def)

lemma map_of_schema_cols:
  "map_of (schema_cols_loop e fs []) k =
     map_option (\<lambda>f. (name f, f)) (find (\<lambda>f. str_lower e (name f) = k) (rev fs))"
proof (induction fs rule: rev_induct)
  case Nil
  show ?case by (simp add: schema_cols_loop_def)
next
  case (snoc f fs)
  show ?case by (simp add: schema_cols_loop_snoc update_conv' snoc.IH)
qed

lemma map_of_schema_cols_None:
  "map_of (schema_cols_loop e fs []) (str_lower e c) = None \<longleftrightarrow> \<not> has_column e fs c"
  by (auto simp add: map_of_schema_cols has_column_def find_None_iff)

lemma find_SomeD: "find P xs = Some x \<Longrightarrow> P x \<and> x \<in> set xs"
  by (induction xs) (auto split: if_splits)

lemma map_of_schema_cols_Some:
  assumes "map_of (schema_cols_loop e fs []) k = Some got"
  shows "\<exists>f\<in>set fs. str_lower e (name f) = k \<and> got = (name f, f)"
proof -
  from assms obtain f where f: "find (\<lambda>f. str_lower e (name f) = k) (rev fs) = Some f"
    and g: "got = (name f, f)"
    by (auto simp add: map_of_schema_cols)
  from find_SomeD[OF f] have "str_lower e (name f) = k" "f \<in> set fs" by simp_all
  with g show ?thesis by blast
qed

lemma pick_column_loop_find:
  "pick_column_loop e (schema_cols_loop e fs []) cands =
     (case find (has_column e fs) cands of
        None \<Rightarrow> None
      | Some c \<Rightarrow> map_option fst (map_of (schema_cols_loop e fs []) (str_lower e c)))"
proof (induction cands)
  case Nil show ?case by simp
next
  case (Cons c cs)
  show ?case
  proof (cases "has_column e fs c")
    case True
    then obtain got where "map_of (schema_cols_loop e fs []) (str_lower e c) = Some got"
      using map_of_schema_cols_None[of e fs c] by auto
    with True show ?thesis by simp
  next
    case False
    then have "map_of (schema_cols_loop e fs []) (str_lower e c) = None"
      by (simp add: map_of_schema_cols_None)
    with False Cons.IH show ?thesis by simp
  qed
qed

lemma pick_column_loop_resolves:
  "resolves e fs cands (pick_column_loop e (schema_cols_loop e fs []) cands)"
proof (cases "find (has_column e fs) cands")
  case None
  then show ?thesis by (simp add: resolves_def pick_column_loop_find)
next
  case (Some c)
  then have "has_column e fs c" using find_SomeD by fastforce
  then obtain got where g: "map_of (schema_cols_loop e fs []) (str_lower e c) = Some got"
    using map_of_schema_cols_None[of e fs c] by auto
  from map_of_schema_cols_Some[OF g] obtain f where
    "f \<in> set fs" "str_lower e (name f) = str_lower e c" "got = (name f, f)" by blast
  with Some g show ?thesis by (auto simp add: resolves_def pick_column_loop_find)
qed

lemma pick_column_loop_None:
  "pick_column_loop e (schema_cols_loop e fs []) cands = None \<longleftrightarrow> (\<forall>c\<in>set cands. \<not> has_column e fs c)"
proof (cases "find (has_column e fs) cands")
  case None
  then have "\<forall>c\<in>set cands. \<not> has_column e fs c" by (simp add: find_None_iff)
  moreover have "pick_column_loop e (schema_cols_loop e fs []) cands = None"
    by (simp add: pick_column_loop_find None)
  ultimately show ?thesis by simp
next
  case (Some c)
  from find_SomeD[OF Some] have h: "has_column e fs c" "c \<in> set cands" by simp_all
  then obtain got where g: "map_of (schema_cols_loop e fs []) (str_lower e c) = Some got"
    using map_of_schema_cols_None[of e fs c] by auto
  have "pick_column_loop e (schema_cols_loop e fs []) cands \<noteq> None"
    by (simp add: pick_column_loop_find Some g)
  with h show ?thesis by blast
qed

text \<open>
  Two schemas whose names agree up to case give indexes with the same keys, and under
  each key the columns at one position of the two schemas.
\<close>

lemma find_rev_last:
  "j < length fs \<Longrightarrow> P (fs ! j) \<Longrightarrow> (\<forall>k. j < k \<and> k < length fs \<longrightarrow> \<not> P (fs ! k))
     \<Longrightarrow> find P (rev fs) = Some (fs ! j)"
proof (induction fs rule: rev_induct)
  case Nil
  then show ?case by simp
next
  case (snoc x fs)
  show ?case
  proof (cases "j = length fs")
    case True
    with snoc.prems show ?thesis by simp
  next
    case False
    with snoc.prems have j: "j < length fs" by simp
    from snoc.prems(3) j have nx: "\<not> P x"
      by (metis length_append_singleton lessI nth_append_length)
    have "\<forall>k. j < k \<and> k < length fs \<longrightarrow> \<not> P (fs ! k)"
    proof (intro allI impI)
      fix k assume k: "j < k \<and> k < length fs"
      then have "\<not> P ((fs @ [x]) ! k)" using snoc.prems(3) by simp
      with k show "\<not> P (fs ! k)" by (simp add: nth_append)
    qed
    moreover from snoc.prems(2) j have "P (fs ! j)" by (simp add: nth_append)
    ultimately have "find P (rev fs) = Some (fs ! j)" using snoc.IH j by blast
    with nx j show ?thesis by (simp add: nth_append)
  qed
qed

lemma find_zip_same:
  "length xs = length ys \<Longrightarrow> map g xs = map g ys \<Longrightarrow>
     (find (\<lambda>f. g f = k) xs = None \<and> find (\<lambda>f. g f = k) ys = None) \<or>
     (\<exists>p\<in>set (zip xs ys). find (\<lambda>f. g f = k) xs = Some (fst p) \<and>
                            find (\<lambda>f. g f = k) ys = Some (snd p))"
proof (induction xs ys rule: list_induct2)
  case Nil
  then show ?case by simp
next
  case (Cons x xs y ys)
  then have gxy: "g x = g y" and m: "map g xs = map g ys" by simp_all
  show ?case
  proof (cases "g x = k")
    case True
    with gxy show ?thesis by simp
  next
    case False
    with gxy Cons.IH[OF m] show ?thesis by auto
  qed
qed

lemma schema_cols_same:
  assumes "map (\<lambda>f. str_lower e (name f)) fs' = map (\<lambda>f. str_lower e (name f)) fs"
  shows "(map_of (schema_cols_loop e fs []) k = None \<and> map_of (schema_cols_loop e fs' []) k = None) \<or>
         (\<exists>p\<in>set (zip fs fs'). map_of (schema_cols_loop e fs []) k = Some (name (fst p), fst p) \<and>
                                map_of (schema_cols_loop e fs' []) k = Some (name (snd p), snd p))"
proof -
  from assms have len: "length fs = length fs'" by (metis length_map)
  from assms have m: "map (\<lambda>f. str_lower e (name f)) (rev fs) = map (\<lambda>f. str_lower e (name f)) (rev fs')"
    by (simp add: rev_map[symmetric])
  have z: "set (zip (rev fs) (rev fs')) = set (zip fs fs')"
    using len by (simp add: zip_rev)
  from find_zip_same[of "rev fs" "rev fs'" "\<lambda>f. str_lower e (name f)" k] len m z
  show ?thesis by (auto simp add: map_of_schema_cols)
qed

lemma pick_column_loop_same:
  assumes "map (\<lambda>f. str_lower e (name f)) fs' = map (\<lambda>f. str_lower e (name f)) fs"
  shows "same_column fs fs' (pick_column_loop e (schema_cols_loop e fs []) cands)
                           (pick_column_loop e (schema_cols_loop e fs' []) cands)"
proof (induction cands)
  case Nil
  show ?case by (simp add: same_column_def)
next
  case (Cons c cs)
  from schema_cols_same[OF assms, of "str_lower e c"] show ?case
  proof
    assume "map_of (schema_cols_loop e fs []) (str_lower e c) = None \<and>
            map_of (schema_cols_loop e fs' []) (str_lower e c) = None"
    then show ?thesis using Cons.IH by simp
  next
    assume "\<exists>p\<in>set (zip fs fs').
              map_of (schema_cols_loop e fs []) (str_lower e c) = Some (name (fst p), fst p) \<and>
              map_of (schema_cols_loop e fs' []) (str_lower e c) = Some (name (snd p), snd p)"
    then obtain p where p: "p \<in> set (zip fs fs')"
      and a: "map_of (schema_cols_loop e fs []) (str_lower e c) = Some (name (fst p), fst p)"
      and b: "map_of (schema_cols_loop e fs' []) (str_lower e c) = Some (name (snd p), snd p)"
      by blast
    have "same_column fs fs' (Some (name (fst p))) (Some (name (snd p)))"
      unfolding same_column_def using p by (simp, intro bexI[of _ p], simp_all)
    then show ?thesis by (simp add: a b)
  qed
qed

lemma same_column_None: "same_column fs fs' r r' \<Longrightarrow> r = None \<longleftrightarrow> r' = None"
  by (auto simp add: same_column_def split: option.splits)

lemma detect_finance_columns_eq:
  assumes "get_table w table_fq = Inr tbl"
  shows "detect_finance_columns e w table_fq =
     (let cols = schema_cols_loop e (schema tbl) [];
          d = pick_column_loop e cols department_candidates;
          a = pick_column_loop e cols amount_candidates;
          t = pick_column_loop e cols date_candidates;
          x = pick_column_loop e cols expense_type_candidates
      in if d = None then
           Inl (ValueError (''Could not find any of columns: '' @ py_repr_list department_candidates))
         else if a = None then
           Inl (ValueError (''Could not find any of columns: '' @ py_repr_list amount_candidates))
         else if t = None then
           Inl (ValueError (''Could not find any of columns: '' @ py_repr_list date_candidates))
         else Inr \<lparr>department = d, amount = a, date = t, expense_type = x\<rparr>)"
  using assms
  by (auto simp add: detect_finance_columns_def table_schema_cols_def pick_column_def Let_def
           split: option.splits)

lemmas eval_resolver = get_table_def world_with_def empty_world_def table_of_def
  detect_finance_columns_def table_schema_cols_def schema_cols_loop_def pick_column_def
  department_candidates_def amount_candidates_def date_candidates_def
  expense_type_candidates_def py_repr_list_def eval_lower

text \<open>
  Claim C3. When resolution succeeds on a table, each of the four roles is resolved as
  specified against its candidate list (the lists as the claim gives them): the result is
  a column of the schema, in its own casing, that matches case-insensitively the first
  candidate in list order that exists; the optional role is \<open>None\<close> when none exists.
  And for a second table whose column names differ from the first's only in letter case,
  resolution succeeds too and resolves every role to the column at the same position.
\<close>

theorem detect_finance_columns_first_candidate:
  assumes "get_table w table_fq = Inr tbl"
      and "detect_finance_columns e w table_fq = Inr r"
      and "get_table w' table_fq' = Inr tbl'"
      and "map (\<lambda>f. str_lower e (name f)) (schema tbl') = map (\<lambda>f. str_lower e (name f)) (schema tbl)"
  shows "resolves e (schema tbl)
           [''department'', ''dept'', ''cost_center'', ''costcentre'', ''cost_centre'']
           (department r)
       \<and> resolves e (schema tbl)
           [''amount'', ''total_amount'', ''spend'', ''cost'', ''value'', ''amt'']
           (amount r)
       \<and> resolves e (schema tbl)
           [''date'', ''txn_date'', ''transaction_date'', ''post_date'', ''doc_date'', ''month'', ''period'']
           (date r)
       \<and> resolves e (schema tbl)
           [''expense_type'', ''category'', ''type'', ''gl_code'']
           (expense_type r)
       \<and> (\<exists>r'. detect_finance_columns e w' table_fq' = Inr r'
              \<and> same_column (schema tbl) (schema tbl') (department r) (department r')
              \<and> same_column (schema tbl) (schema tbl') (amount r) (amount r')
              \<and> same_column (schema tbl) (schema tbl') (date r) (date r')
              \<and> same_column (schema tbl) (schema tbl') (expense_type r) (expense_type r'))"
proof -
  let ?cols = "schema_cols_loop e (schema tbl) []" and ?cols' = "schema_cols_loop e (schema tbl') []"
  let ?d = "pick_column_loop e ?cols department_candidates"
  let ?a = "pick_column_loop e ?cols amount_candidates"
  let ?t = "pick_column_loop e ?cols date_candidates"
  let ?x = "pick_column_loop e ?cols expense_type_candidates"
  let ?d' = "pick_column_loop e ?cols' department_candidates"
  let ?a' = "pick_column_loop e ?cols' amount_candidates"
  let ?t' = "pick_column_loop e ?cols' date_candidates"
  let ?x' = "pick_column_loop e ?cols' expense_type_candidates"
  from assms(2) have some: "?d \<noteq> None" "?a \<noteq> None" "?t \<noteq> None"
    and r: "r = \<lparr>department = ?d, amount = ?a, date = ?t, expense_type = ?x\<rparr>"
    by (auto simp add: detect_finance_columns_eq[OF assms(1)] Let_def split: if_splits)
  have sd: "same_column (schema tbl) (schema tbl') ?d ?d'"
    and sa: "same_column (schema tbl) (schema tbl') ?a ?a'"
    and st: "same_column (schema tbl) (schema tbl') ?t ?t'"
    and sx: "same_column (schema tbl) (schema tbl') ?x ?x'"
    by (rule pick_column_loop_same[OF assms(4)])+
  from some same_column_None[OF sd] same_column_None[OF sa] same_column_None[OF st]
  have some': "?d' \<noteq> None" "?a' \<noteq> None" "?t' \<noteq> None" by simp_all
  have r': "detect_finance_columns e w' table_fq' =
              Inr \<lparr>department = ?d', amount = ?a', date = ?t', expense_type = ?x'\<rparr>"
    using some' by (simp add: detect_finance_columns_eq[OF assms(3)] Let_def)
  have res: "resolves e (schema tbl) department_candidates (department r)"
            "resolves e (schema tbl) amount_candidates (amount r)"
            "resolves e (schema tbl) date_candidates (date r)"
            "resolves e (schema tbl) expense_type_candidates (expense_type r)"
    unfolding r by (simp_all add: pick_column_loop_resolves)
  have same: "\<exists>r'. detect_finance_columns e w' table_fq' = Inr r'
              \<and> same_column (schema tbl) (schema tbl') (department r) (department r')
              \<and> same_column (schema tbl) (schema tbl') (amount r) (amount r')
              \<and> same_column (schema tbl) (schema tbl') (date r) (date r')
              \<and> same_column (schema tbl) (schema tbl') (expense_type r) (expense_type r')"
    unfolding r r' using sd sa st sx by simp
  from res same show ?thesis
    unfolding department_candidates_def amount_candidates_def date_candidates_def
      expense_type_candidates_def by blast
qed

theorem detect_finance_columns_first_candidate_witness:
  "detect_finance_columns ex_env (world_with ''t'' (table_of [''dept'', ''amt'', ''txn_date''])) ''t'' =
     Inr \<lparr>department = Some ''dept'', amount = Some ''amt'', date = Some ''txn_date'',
          expense_type = None\<rparr>
   \<and> detect_finance_columns ex_env (world_with ''t'' (table_of [''DEPT'', ''Amt'', ''Txn_Date''])) ''t'' =
     Inr \<lparr>department = Some ''DEPT'', amount = Some ''Amt'', date = Some ''Txn_Date'',
          expense_type = None\<rparr>
   \<and> resolves ex_env (schema (table_of [''dept'', ''amt'', ''txn_date'']))
        [''department'', ''dept'', ''cost_center'', ''costcentre'', ''cost_centre'']
        (Some ''dept'')
   \<and> same_column (schema (table_of [''dept'', ''amt'', ''txn_date'']))
        (schema (table_of [''DEPT'', ''Amt'', ''Txn_Date''])) (Some ''dept'') (Some ''DEPT'')"
proof -
  let ?w = "world_with ''t'' (table_of [''dept'', ''amt'', ''txn_date''])"
  let ?w' = "world_with ''t'' (table_of [''DEPT'', ''Amt'', ''Txn_Date''])"
  have h1: "get_table ?w ''t'' = Inr (table_of [''dept'', ''amt'', ''txn_date''])"
    by (simp add: get_table_def world_with_def empty_world_def)
  have h2: "detect_finance_columns ex_env ?w ''t'' =
     Inr \<lparr>department = Some ''dept'', amount = Some ''amt'', date = Some ''txn_date'',
          expense_type = None\<rparr>"
    by (simp add: eval_resolver)
  have h3: "get_table ?w' ''t'' = Inr (table_of [''DEPT'', ''Amt'', ''Txn_Date''])"
    by (simp add: get_table_def world_with_def empty_world_def)
  have h4: "map (\<lambda>f. str_lower ex_env (name f)) (schema (table_of [''DEPT'', ''Amt'', ''Txn_Date''])) =
            map (\<lambda>f. str_lower ex_env (name f)) (schema (table_of [''dept'', ''amt'', ''txn_date'']))"
    by (simp add: table_of_def eval_lower)
  have h5: "detect_finance_columns ex_env ?w' ''t'' =
     Inr \<lparr>department = Some ''DEPT'', amount = Some ''Amt'', date = Some ''Txn_Date'',
          expense_type = None\<rparr>"
    by (simp add: eval_resolver)
  from detect_finance_columns_first_candidate[OF h1 h2 h3 h4] h2 h5 show ?thesis by simp
qed

lemma pick_column_loop_missing:
  "pick_column_loop e (schema_cols_loop e fs []) cands = None \<longleftrightarrow> missing e fs cands"
  by (simp add: pick_column_loop_None missing_def)

lemma names_role_candidates:
  "names_role (''Could not find any of columns: '' @ py_repr_list (role # c # cs)) role"
  by (simp add: names_role_def py_repr_list_def)

text \<open>
  Claim C4. When a required role (department, amount or date) is missing from a table's
  schema, resolution fails: it raises the error whose message prints the candidate list
  that was tried for a missing role (the first missing one, in the order department,
  amount, date), and that list starts with the role's own name. The witness is the schema
  \<open>{region, value, period, category}\<close>, where the role reported is department.
\<close>

theorem detect_finance_columns_missing_role:
  assumes "get_table w table_fq = Inr tbl"
      and "\<exists>rc\<in>set required_roles. missing e (schema tbl) (snd rc)"
  shows "\<exists>rc\<in>set required_roles.
           missing e (schema tbl) (snd rc)
         \<and> detect_finance_columns e w table_fq =
             Inl (ValueError (''Could not find any of columns: '' @ py_repr_list (snd rc)))
         \<and> names_role (''Could not find any of columns: '' @ py_repr_list (snd rc)) (fst rc)"
proof -
  let ?fs = "schema tbl"
  have n: "names_role (''Could not find any of columns: '' @ py_repr_list department_candidates) ''department''"
          "names_role (''Could not find any of columns: '' @ py_repr_list amount_candidates) ''amount''"
          "names_role (''Could not find any of columns: '' @ py_repr_list date_candidates) ''date''"
    unfolding department_candidates_def amount_candidates_def date_candidates_def
    by (rule names_role_candidates)+
  consider (d) "missing e ?fs department_candidates"
    | (a) "\<not> missing e ?fs department_candidates" "missing e ?fs amount_candidates"
    | (t) "\<not> missing e ?fs department_candidates" "\<not> missing e ?fs amount_candidates"
          "missing e ?fs date_candidates"
    using assms(2) by (auto simp add: required_roles_def)
  then show ?thesis
  proof cases
    case d
    then have "detect_finance_columns e w table_fq =
        Inl (ValueError (''Could not find any of columns: '' @ py_repr_list department_candidates))"
      by (simp add: detect_finance_columns_eq[OF assms(1)] Let_def pick_column_loop_missing)
    with d n(1) have "(\<lambda>rc. missing e ?fs (snd rc)
         \<and> detect_finance_columns e w table_fq =
             Inl (ValueError (''Could not find any of columns: '' @ py_repr_list (snd rc)))
         \<and> names_role (''Could not find any of columns: '' @ py_repr_list (snd rc)) (fst rc))
        (''department'', department_candidates)" by simp
    then show ?thesis by (intro bexI[of _ "(''department'', department_candidates)"])
        (simp_all add: required_roles_def)
  next
    case a
    then have "detect_finance_columns e w table_fq =
        Inl (ValueError (''Could not find any of columns: '' @ py_repr_list amount_candidates))"
      by (simp add: detect_finance_columns_eq[OF assms(1)] Let_def pick_column_loop_missing)
    with a n(2) have "(\<lambda>rc. missing e ?fs (snd rc)
         \<and> detect_finance_columns e w table_fq =
             Inl (ValueError (''Could not find any of columns: '' @ py_repr_list (snd rc)))
         \<and> names_role (''Could not find any of columns: '' @ py_repr_list (snd rc)) (fst rc))
        (''amount'', amount_candidates)" by simp
    then show ?thesis by (intro bexI[of _ "(''amount'', amount_candidates)"])
        (simp_all add: required_roles_def)
  next
    case t
    then have "detect_finance_columns e w table_fq =
        Inl (ValueError (''Could not find any of columns: '' @ py_repr_list date_candidates))"
      by (simp add: detect_finance_columns_eq[OF assms(1)] Let_def pick_column_loop_missing)
    with t n(3) have "(\<lambda>rc. missing e ?fs (snd rc)
         \<and> detect_finance_columns e w table_fq =
             Inl (ValueError (''Could not find any of columns: '' @ py_repr_list (snd rc)))
         \<and> names_role (''Could not find any of columns: '' @ py_repr_list (snd rc)) (fst rc))
        (''date'', date_candidates)" by simp
    then show ?thesis by (intro bexI[of _ "(''date'', date_candidates)"])
        (simp_all add: required_roles_def)
  qed
qed

lemmas eval_missing = missing_def has_column_def table_of_def required_roles_def
  department_candidates_def amount_candidates_def date_candidates_def eval_lower

theorem detect_finance_columns_missing_role_witness:
  "missing ex_env (schema (table_of [''region'', ''value'', ''period'', ''category''])) department_candidates
   \<and> detect_finance_columns ex_env
       (world_with ''t'' (table_of [''region'', ''value'', ''period'', ''category''])) ''t'' =
     Inl (ValueError
       ''Could not find any of columns: ['department', 'dept', 'cost_center', 'costcentre', 'cost_centre']'')
   \<and> names_role
       ''Could not find any of columns: ['department', 'dept', 'cost_center', 'costcentre', 'cost_centre']''
       ''department''"
proof -
  let ?tbl = "table_of [''region'', ''value'', ''period'', ''category'']"
  have h1: "get_table (world_with ''t'' ?tbl) ''t'' = Inr ?tbl"
    by (simp add: get_table_def world_with_def empty_world_def)
  have m: "missing ex_env (schema ?tbl) department_candidates"
    by (simp add: eval_missing)
  then have h2: "\<exists>rc\<in>set required_roles. missing ex_env (schema ?tbl) (snd rc)"
    by (simp add: required_roles_def)
  have na: "\<not> missing ex_env (schema ?tbl) amount_candidates"
    by (simp add: eval_missing)
  have nd: "\<not> missing ex_env (schema ?tbl) date_candidates"
    by (simp add: eval_missing)
  from detect_finance_columns_missing_role[OF h1 h2] na nd
  have "detect_finance_columns ex_env (world_with ''t'' ?tbl) ''t'' =
          Inl (ValueError (''Could not find any of columns: '' @ py_repr_list department_candidates))
        \<and> names_role (''Could not find any of columns: '' @ py_repr_list department_candidates)
            ''department''"
    by (auto simp add: required_roles_def)
  with m show ?thesis by (simp add: py_repr_list_def department_candidates_def)
qed

text \<open>
  Claim C10. When two columns of a schema have names that differ only in letter case
  (their lower-cased names are equal), the entry of the lower-cased index under their
  common key is that of the later column, the last one with that key. And when the first
  candidate of a list, in list order, that exists in the schema matches that key, the
  resolver returns the later column's name, in that column's casing, wherever in the list
  the candidate stands.
\<close>

theorem pick_column_last_case_collision:
  assumes "get_table w table_fq = Inr tbl"
      and "table_schema_cols e w table_fq = Inr cols"
      and "i < j" and "j < length (schema tbl)"
      and "str_lower e (name (schema tbl ! i)) = str_lower e (name (schema tbl ! j))"
      and "str_lower e (name (schema tbl ! j)) \<notin>
             (\<lambda>f. str_lower e (name f)) ` set (drop (Suc j) (schema tbl))"
      and "find (has_column e (schema tbl)) candidates = Some c"
      and "str_lower e c = str_lower e (name (schema tbl ! j))"
  shows "map_of cols (str_lower e (name (schema tbl ! i))) =
           Some (name (schema tbl ! j), schema tbl ! j)
       \<and> pick_column e cols candidates required = Inr (Some (name (schema tbl ! j)))"
proof -
  let ?fs = "schema tbl" and ?k = "str_lower e (name (schema tbl ! j))"
  from assms(1,2) have cols: "cols = schema_cols_loop e ?fs []"
    by (simp add: table_schema_cols_def)
  have later: "\<forall>k. j < k \<and> k < length ?fs \<longrightarrow> \<not> (str_lower e (name (?fs ! k)) = ?k)"
  proof (intro allI impI)
    fix k assume k: "j < k \<and> k < length ?fs"
    then have "?fs ! k = drop (Suc j) ?fs ! (k - Suc j)" by simp
    moreover from k have "k - Suc j < length ?fs - Suc j" by linarith
    then have "k - Suc j < length (drop (Suc j) ?fs)" by simp
    ultimately have "?fs ! k \<in> set (drop (Suc j) ?fs)" by (metis nth_mem)
    then have "str_lower e (name (?fs ! k)) \<in>
                 (\<lambda>f. str_lower e (name f)) ` set (drop (Suc j) ?fs)"
      by (rule imageI)
    with assms(6) show "\<not> (str_lower e (name (?fs ! k)) = ?k)" by metis
  qed
  have "find (\<lambda>f. str_lower e (name f) = ?k) (rev ?fs) = Some (?fs ! j)"
    by (rule find_rev_last[OF assms(4) _ later]) simp
  then have m: "map_of cols ?k = Some (name (?fs ! j), ?fs ! j)"
    by (simp add: cols map_of_schema_cols)
  have "pick_column_loop e cols candidates = Some (name (?fs ! j))"
    using m by (simp add: cols pick_column_loop_find assms(7) assms(8))
  then have "pick_column e cols candidates required = Inr (Some (name (?fs ! j)))"
    by (simp add: pick_column_def)
  with m assms(5) show ?thesis by simp
qed

theorem pick_column_last_case_collision_witness:
  "table_schema_cols ex_env (world_with ''t'' (table_of [''Dept'', ''amt'', ''DEPT'', ''date''])) ''t'' =
     Inr (schema_cols_loop ex_env (schema (table_of [''Dept'', ''amt'', ''DEPT'', ''date''])) [])
   \<and> find (has_column ex_env (schema (table_of [''Dept'', ''amt'', ''DEPT'', ''date''])))
       department_candidates = Some ''dept''
   \<and> pick_column ex_env
       (schema_cols_loop ex_env (schema (table_of [''Dept'', ''amt'', ''DEPT'', ''date''])) [])
       department_candidates True = Inr (Some ''DEPT'')"
proof -
  let ?tbl = "table_of [''Dept'', ''amt'', ''DEPT'', ''date'']"
  have h1: "get_table (world_with ''t'' ?tbl) ''t'' = Inr ?tbl"
    by (simp add: get_table_def world_with_def empty_world_def)
  have h2: "table_schema_cols ex_env (world_with ''t'' ?tbl) ''t'' =
              Inr (schema_cols_loop ex_env (schema ?tbl) [])"
    by (simp add: table_schema_cols_def h1)
  have h3: "(0::nat) < 2" by simp
  have h4: "2 < length (schema ?tbl)" by (simp add: table_of_def)
  have h5: "str_lower ex_env (name (schema ?tbl ! 0)) = str_lower ex_env (name (schema ?tbl ! 2))"
    by (simp add: table_of_def eval_lower)
  have h6: "str_lower ex_env (name (schema ?tbl ! 2)) \<notin>
             (\<lambda>f. str_lower ex_env (name f)) ` set (drop (Suc 2) (schema ?tbl))"
    by (simp add: table_of_def eval_lower)
  have h7: "find (has_column ex_env (schema ?tbl)) department_candidates = Some ''dept''"
    by (simp add: has_column_def table_of_def department_candidates_def eval_lower)
  have h8: "str_lower ex_env ''dept'' = str_lower ex_env (name (schema ?tbl ! 2))"
    by (simp add: table_of_def eval_lower)
  have n: "name (schema ?tbl ! 2) = ''DEPT''" by (simp add: table_of_def)
  from pick_column_last_case_collision[OF h1 h2 h3 h4 h5 h6 h7 h8, of True]
  have "pick_column ex_env (schema_cols_loop ex_env (schema ?tbl) []) department_candidates True =
          Inr (Some (name (schema ?tbl ! 2)))"
    by (rule conjunct2)
  then have "pick_column ex_env (schema_cols_loop ex_env (schema ?tbl) []) department_candidates True =
          Inr (Some ''DEPT'')"
    by (simp only: n)
  with h2 h7 show ?thesis by (intro conjI)
qed

section \<open>Properties: the view publisher\<close>

text \<open>
  The publisher's loop is followed over any catalog with distinct report ids: what a
  successful run returns and leaves in the warehouse, that a run on a state which already
  holds the views with their queries changes nothing, and that the loop stops at the first
  failure.
\<close>

lemma ensure_dataset_exists_fields [simp]:
  "objects (ensure_dataset_exists d w) = objects w"
  "denied (ensure_dataset_exists d w) = denied w"
  "blobs (ensure_dataset_exists d w) = blobs w"
  "published (ensure_dataset_exists d w) = published w"
  "queries (ensure_dataset_exists d w) = queries w"
  "load_jobs (ensure_dataset_exists d w) = load_jobs w"
  "d \<in> datasets (ensure_dataset_exists d w)"
  by (simp_all add: ensure_dataset_exists_def)

lemma ensure_dataset_exists_idem: "d \<in> datasets w \<Longrightarrow> ensure_dataset_exists d w = w"
  by (simp add: ensure_dataset_exists_def)

lemma detect_finance_columns_cong:
  "objects w' table_fq = objects w table_fq \<Longrightarrow>
     detect_finance_columns e w' table_fq = detect_finance_columns e w table_fq"
  by (simp add: detect_finance_columns_def table_schema_cols_def get_table_def)

lemma view_id_inj: "view_id e t rid = view_id e t rid' \<longleftrightarrow> rid = rid'"
  by (simp add: view_id_def)

lemma view_id_not_table:
  "view_id e t rid \<noteq> PROJECT_ID e @ ''.'' @ BIGQUERY_DATASET e @ ''.'' @ t"
  by (simp add: view_id_def)

lemma create_or_replace_view_denied:
  "v \<in> denied w \<Longrightarrow> create_or_replace_view v s w = (Inl (Forbidden v), w)"
  by (simp add: create_or_replace_view_def get_table_def update_table_def create_table_def
           split: option.splits)

lemma create_or_replace_view_accepted:
  "v \<notin> denied w \<Longrightarrow>
     \<exists>tbl. create_or_replace_view v s w = (Inr tbl, w\<lparr>objects := (objects w)(v \<mapsto> tbl)\<rparr>)
          \<and> view_query tbl = Some s"
  by (simp add: create_or_replace_view_def get_table_def update_table_def create_table_def
           split: option.splits)

lemma create_or_replace_view_same:
  assumes "v \<notin> denied w" and "objects w v = Some tbl" and "view_query tbl = Some s"
  shows "create_or_replace_view v s w = (Inr tbl, w)"
proof -
  have "tbl\<lparr>view_query := Some s\<rparr> = tbl" using assms(3) by simp
  moreover have "(objects w)(v \<mapsto> tbl) = objects w" using assms(2) by (rule map_upd_triv)
  ultimately show ?thesis using assms(1,2)
    by (simp add: create_or_replace_view_def get_table_def update_table_def)
qed

lemma publish_loop_step:
  "publish_loop e t fq cols ((rid, meta) # rest) created w =
     (case py_format (sql meta) (format_kwargs fq cols) of
        Inl err \<Rightarrow> (Inl err, w)
      | Inr s \<Rightarrow>
          (case create_or_replace_view (view_id e t rid) s w of
             (Inl err, w') \<Rightarrow> (Inl err, w')
           | (Inr v, w') \<Rightarrow>
               publish_loop e t fq cols rest (AList.update rid (view_id e t rid) created) w'))"
proof -
  have eq: "PROJECT_ID e @ ''.'' @ BIGQUERY_DATASET e @ ''.'' @ (t @ ''__'' @ rid @ ''_v'') =
            view_id e t rid"
    by (simp add: view_id_def)
  show ?thesis unfolding publish_loop.simps Let_def eq ..
qed

declare publish_loop.simps(2) [simp del]

lemma expected_views_Cons:
  "expected_views e t ((rid, meta) # rest) created =
     expected_views e t rest (AList.update rid (view_id e t rid) created)"
  by (simp add: expected_views_def)

lemma publish_loop_inv:
  assumes "publish_loop e t fq cols reports created w = (Inr m, w1)"
      and "distinct (map fst reports)"
  shows "m = expected_views e t reports created
       \<and> w1 = w\<lparr>objects := objects w1\<rparr>
       \<and> (\<forall>x. x \<notin> view_id e t ` fst ` set reports \<longrightarrow> objects w1 x = objects w x)
       \<and> (\<forall>rm\<in>set reports. view_id e t (fst rm) \<notin> denied w
             \<and> (\<exists>v s. objects w1 (view_id e t (fst rm)) = Some v \<and> view_query v = Some s
                     \<and> py_format (sql (snd rm)) (format_kwargs fq cols) = Inr s))"
  using assms
proof (induction reports arbitrary: created w)
  case Nil
  then show ?case by (simp add: expected_views_def)
next
  case (Cons rm rest)
  obtain rid meta where rm: "rm = (rid, meta)" by (cases rm)
  from Cons.prems(1) obtain s where s: "py_format (sql meta) (format_kwargs fq cols) = Inr s"
    unfolding rm by (auto simp add: publish_loop_step split: sum.splits)
  have nd: "view_id e t rid \<notin> denied w"
  proof
    assume "view_id e t rid \<in> denied w"
    then show False using Cons.prems(1) unfolding rm
      by (simp add: publish_loop_step s create_or_replace_view_denied)
  qed
  from create_or_replace_view_accepted[OF nd, of s] obtain tbl where
    c: "create_or_replace_view (view_id e t rid) s w =
          (Inr tbl, w\<lparr>objects := (objects w)(view_id e t rid \<mapsto> tbl)\<rparr>)"
    and vq: "view_query tbl = Some s" by blast
  let ?w' = "w\<lparr>objects := (objects w)(view_id e t rid \<mapsto> tbl)\<rparr>"
  from Cons.prems(1) have loop: "publish_loop e t fq cols rest
      (AList.update rid (view_id e t rid) created) ?w' = (Inr m, w1)"
    unfolding rm by (simp add: publish_loop_step s c)
  from Cons.prems(2) have d: "distinct (map fst rest)" and nin: "rid \<notin> fst ` set rest"
    unfolding rm by simp_all
  note IH = Cons.IH[OF loop d]
  from IH have m: "m = expected_views e t (rm # rest) created"
    unfolding rm by (simp add: expected_views_Cons)
  from IH have "w1 = ?w'\<lparr>objects := objects w1\<rparr>" by blast
  then have w1: "w1 = w\<lparr>objects := objects w1\<rparr>" by simp
  have notin: "view_id e t rid \<notin> view_id e t ` fst ` set rest"
    using nin by (force simp add: view_id_inj)
  from IH notin have here: "objects w1 (view_id e t rid) = Some tbl" by simp
  have out: "\<forall>x. x \<notin> view_id e t ` fst ` set (rm # rest) \<longrightarrow> objects w1 x = objects w x"
    using IH unfolding rm by auto
  have all: "\<forall>rm'\<in>set (rm # rest). view_id e t (fst rm') \<notin> denied w
             \<and> (\<exists>v s. objects w1 (view_id e t (fst rm')) = Some v \<and> view_query v = Some s
                     \<and> py_format (sql (snd rm')) (format_kwargs fq cols) = Inr s)"
    using IH nd here vq s unfolding rm by auto
  from m w1 out all show ?case by blast
qed

lemma publish_loop_fixpoint:
  assumes "\<forall>rm\<in>set reports. view_id e t (fst rm) \<notin> denied w
             \<and> (\<exists>v s. objects w (view_id e t (fst rm)) = Some v \<and> view_query v = Some s
                     \<and> py_format (sql (snd rm)) (format_kwargs fq cols) = Inr s)"
  shows "publish_loop e t fq cols reports created w = (Inr (expected_views e t reports created), w)"
  using assms
proof (induction reports arbitrary: created)
  case Nil
  show ?case by (simp add: expected_views_def)
next
  case (Cons rm rest)
  obtain rid meta where rm: "rm = (rid, meta)" by (cases rm)
  from Cons.prems obtain v s where nd: "view_id e t rid \<notin> denied w"
    and v: "objects w (view_id e t rid) = Some v" "view_query v = Some s"
    and s: "py_format (sql meta) (format_kwargs fq cols) = Inr s"
    unfolding rm by auto
  from Cons.prems have rest: "\<forall>rm\<in>set rest. view_id e t (fst rm) \<notin> denied w
             \<and> (\<exists>v s. objects w (view_id e t (fst rm)) = Some v \<and> view_query v = Some s
                     \<and> py_format (sql (snd rm)) (format_kwargs fq cols) = Inr s)"
    by simp
  show ?case unfolding rm
    by (simp add: publish_loop_step s create_or_replace_view_same[OF nd v] Cons.IH[OF rest]
                  expected_views_Cons)
qed

lemma publish_loop_success:
  assumes "\<forall>rm\<in>set reports. view_id e t (fst rm) \<notin> denied w
             \<and> (\<exists>s. py_format (sql (snd rm)) (format_kwargs fq cols) = Inr s)"
  shows "\<exists>w1. publish_loop e t fq cols reports created w = (Inr (expected_views e t reports created), w1)"
  using assms
proof (induction reports arbitrary: created w)
  case Nil
  show ?case by (simp add: expected_views_def)
next
  case (Cons rm rest)
  obtain rid meta where rm: "rm = (rid, meta)" by (cases rm)
  from Cons.prems obtain s where nd: "view_id e t rid \<notin> denied w"
    and s: "py_format (sql meta) (format_kwargs fq cols) = Inr s"
    unfolding rm by auto
  from create_or_replace_view_accepted[OF nd, of s] obtain tbl where
    c: "create_or_replace_view (view_id e t rid) s w =
          (Inr tbl, w\<lparr>objects := (objects w)(view_id e t rid \<mapsto> tbl)\<rparr>)" by blast
  let ?w' = "w\<lparr>objects := (objects w)(view_id e t rid \<mapsto> tbl)\<rparr>"
  from Cons.prems have rest: "\<forall>rm\<in>set rest. view_id e t (fst rm) \<notin> denied ?w'
             \<and> (\<exists>s. py_format (sql (snd rm)) (format_kwargs fq cols) = Inr s)"
    by simp
  from Cons.IH[OF rest] show ?case unfolding rm
    by (simp add: publish_loop_step s c expected_views_Cons)
qed

lemma publish_loop_append:
  "publish_loop e t fq cols (pre @ post) created w =
     (case publish_loop e t fq cols pre created w of
        (Inl err, w') \<Rightarrow> (Inl err, w')
      | (Inr c, w') \<Rightarrow> publish_loop e t fq cols post c w')"
proof (induction pre arbitrary: created w)
  case Nil
  show ?case by simp
next
  case (Cons rm pre)
  obtain rid meta where rm: "rm = (rid, meta)" by (cases rm)
  show ?case unfolding rm
    by (simp add: publish_loop_step Cons.IH split: sum.splits prod.splits)
qed

lemma publish_loop_render_failure:
  assumes "publish_loop e t fq cols pre created w = (Inr c, w')"
      and "py_format (sql meta) (format_kwargs fq cols) = Inl err"
  shows "publish_loop e t fq cols (pre @ (rid, meta) # post) created w = (Inl err, w')"
  by (simp add: publish_loop_append assms publish_loop_step)

lemma catalog_ids:
  "map fst REPORTS =
     [''dept_totals'', ''monthly_trend'', ''top_expense_types'', ''dept_month_matrix'',
      ''avg_monthly_by_dept'']"
  by (simp add: REPORTS_def)

lemma catalog_distinct: "distinct (map fst REPORTS)"
  by (simp add: catalog_ids)

lemma catalog_renders:
  "\<forall>rm\<in>set REPORTS. \<exists>s. py_format (sql (snd rm)) (format_kwargs fq cols) = Inr s"
  by (simp add: REPORTS_def format_kwargs_def)

lemma expected_views_catalog: "expected_views e t REPORTS [] = full_catalog e t"
  by (simp add: expected_views_def REPORTS_def full_catalog_def)

lemma full_catalog_keys: "map fst (full_catalog e t) = map fst REPORTS \<and> length (full_catalog e t) = 5"
  by (simp add: full_catalog_def catalog_ids)

lemma publish_unfold:
  assumes "validate_table_name t = Inr t"
      and "detect_finance_columns e w (PROJECT_ID e @ ''.'' @ BIGQUERY_DATASET e @ ''.'' @ t) = Inr cols"
  shows "publish_looker_views_for_table e t w =
           publish_loop e t (PROJECT_ID e @ ''.'' @ BIGQUERY_DATASET e @ ''.'' @ t) cols REPORTS []
             (ensure_dataset_exists (BIGQUERY_DATASET e) w)"
proof -
  have "detect_finance_columns e (ensure_dataset_exists (BIGQUERY_DATASET e) w)
          (PROJECT_ID e @ ''.'' @ BIGQUERY_DATASET e @ ''.'' @ t) =
        detect_finance_columns e w (PROJECT_ID e @ ''.'' @ BIGQUERY_DATASET e @ ''.'' @ t)"
    by (rule detect_finance_columns_cong) simp
  with assms(2) have "detect_finance_columns e (ensure_dataset_exists (BIGQUERY_DATASET e) w)
          (PROJECT_ID e @ ''.'' @ BIGQUERY_DATASET e @ ''.'' @ t) = Inr cols"
    by (simp only:)
  then show ?thesis
    by (simp add: publish_looker_views_for_table_def Let_def assms(1))
qed

lemma publish_Inr_D:
  assumes "publish_looker_views_for_table e t w = (Inr m, w1)"
  shows "validate_table_name t = Inr t
       \<and> (\<exists>cols. detect_finance_columns e w (PROJECT_ID e @ ''.'' @ BIGQUERY_DATASET e @ ''.'' @ t) = Inr cols)"
proof -
  from assms obtain t' where v: "validate_table_name t = Inr t'"
    by (cases "validate_table_name t") (simp_all add: publish_looker_views_for_table_def Let_def)
  then have t': "t' = t" by (simp add: validate_table_name_Inr_iff)
  from assms v t' obtain cols where
    "detect_finance_columns e (ensure_dataset_exists (BIGQUERY_DATASET e) w)
       (PROJECT_ID e @ ''.'' @ BIGQUERY_DATASET e @ ''.'' @ t) = Inr cols"
    by (cases "detect_finance_columns e (ensure_dataset_exists (BIGQUERY_DATASET e) w)
                 (PROJECT_ID e @ ''.'' @ BIGQUERY_DATASET e @ ''.'' @ t)")
       (simp_all add: publish_looker_views_for_table_def Let_def)
  moreover have "detect_finance_columns e (ensure_dataset_exists (BIGQUERY_DATASET e) w)
          (PROJECT_ID e @ ''.'' @ BIGQUERY_DATASET e @ ''.'' @ t) =
        detect_finance_columns e w (PROJECT_ID e @ ''.'' @ BIGQUERY_DATASET e @ ''.'' @ t)"
    by (rule detect_finance_columns_cong) simp
  ultimately have "detect_finance_columns e w (PROJECT_ID e @ ''.'' @ BIGQUERY_DATASET e @ ''.'' @ t) = Inr cols"
    by (simp only:)
  with v t' show ?thesis by blast
qed

lemma publish_success:
  assumes "validate_table_name t = Inr t"
      and "detect_finance_columns e w (PROJECT_ID e @ ''.'' @ BIGQUERY_DATASET e @ ''.'' @ t) = Inr cols"
      and "\<forall>rid\<in>set (map fst REPORTS). view_id e t rid \<notin> denied w"
  shows "fst (publish_looker_views_for_table e t w) = Inr (full_catalog e t)"
proof -
  let ?w = "ensure_dataset_exists (BIGQUERY_DATASET e) w"
  let ?fq = "PROJECT_ID e @ ''.'' @ BIGQUERY_DATASET e @ ''.'' @ t"
  have "\<forall>rm\<in>set REPORTS. view_id e t (fst rm) \<notin> denied ?w
          \<and> (\<exists>s. py_format (sql (snd rm)) (format_kwargs ?fq cols) = Inr s)"
    using assms(3) catalog_renders[of ?fq cols] by simp
  from publish_loop_success[OF this, of "[]"] show ?thesis
    by (auto simp add: publish_unfold[OF assms(1,2)] expected_views_catalog)
qed

lemma publish_never_partial:
  assumes "fst (publish_looker_views_for_table e t w) = Inr m"
  shows "m = full_catalog e t"
proof -
  obtain w1 where p: "publish_looker_views_for_table e t w = (Inr m, w1)"
    using assms by (cases "publish_looker_views_for_table e t w") simp
  from publish_Inr_D[OF p] obtain cols where v: "validate_table_name t = Inr t"
    and d: "detect_finance_columns e w (PROJECT_ID e @ ''.'' @ BIGQUERY_DATASET e @ ''.'' @ t) = Inr cols"
    by blast
  from p have "publish_loop e t (PROJECT_ID e @ ''.'' @ BIGQUERY_DATASET e @ ''.'' @ t) cols REPORTS []
                 (ensure_dataset_exists (BIGQUERY_DATASET e) w) = (Inr m, w1)"
    by (simp add: publish_unfold[OF v d])
  from publish_loop_inv[OF this catalog_distinct] show ?thesis
    by (simp add: expected_views_catalog)
qed

text \<open>
  Claim C7. For a valid table name whose required roles resolve (and a warehouse that
  accepts the view writes), publishing returns the full mapping: one entry per catalog
  report, five in all, each view named \<open>{table}__{reportId}_v\<close>. Whatever the table name
  and the state, a mapping that is returned is the full one, never a part of it. And in
  the loop, for any catalog, a report whose rendering fails after the reports before it
  succeeded ends the call with that rendering error.
\<close>

theorem publish_looker_views_full_catalog:
  assumes "validate_table_name t = Inr t"
      and "detect_finance_columns e w (PROJECT_ID e @ ''.'' @ BIGQUERY_DATASET e @ ''.'' @ t) = Inr cols"
      and "\<forall>rid\<in>set (map fst REPORTS). view_id e t rid \<notin> denied w"
  shows "fst (publish_looker_views_for_table e t w) = Inr (full_catalog e t)
       \<and> map fst (full_catalog e t) = map fst REPORTS
       \<and> length (full_catalog e t) = 5
       \<and> (\<forall>t' w' m. fst (publish_looker_views_for_table e t' w') = Inr m \<longrightarrow> m = full_catalog e t')
       \<and> (\<forall>fq pre rid meta post created w0 c w1 err.
            publish_loop e t fq cols pre created w0 = (Inr c, w1)
            \<and> py_format (sql meta) (format_kwargs fq cols) = Inl err
            \<longrightarrow> publish_loop e t fq cols (pre @ (rid, meta) # post) created w0 = (Inl err, w1))"
proof (intro conjI allI impI)
  show "fst (publish_looker_views_for_table e t w) = Inr (full_catalog e t)"
    by (rule publish_success[OF assms])
  show "map fst (full_catalog e t) = map fst REPORTS"
    by (simp add: full_catalog_keys)
  show "length (full_catalog e t) = 5"
    by (simp add: full_catalog_keys)
next
  fix t' w' m
  assume "fst (publish_looker_views_for_table e t' w') = Inr m"
  then show "m = full_catalog e t'" by (rule publish_never_partial)
next
  fix fq pre rid and meta :: report and post created w0 c w1 err
  assume "publish_loop e t fq cols pre created w0 = (Inr c, w1)
            \<and> py_format (sql meta) (format_kwargs fq cols) = Inl err"
  then show "publish_loop e t fq cols (pre @ (rid, meta) # post) created w0 = (Inl err, w1)"
    using publish_loop_render_failure by blast
qed

lemmas eval_world = world_with_def empty_world_def ex_env_def

theorem publish_looker_views_full_catalog_witness:
  "fst (publish_looker_views_for_table ex_env ''finance_data''
          (world_with ''proj.analysis_dataset.finance_data''
             (table_of [''Department'', ''Amount'', ''Date'']))) =
     Inr [(''dept_totals'', ''proj.analysis_dataset.finance_data__dept_totals_v''),
          (''monthly_trend'', ''proj.analysis_dataset.finance_data__monthly_trend_v''),
          (''top_expense_types'', ''proj.analysis_dataset.finance_data__top_expense_types_v''),
          (''dept_month_matrix'', ''proj.analysis_dataset.finance_data__dept_month_matrix_v''),
          (''avg_monthly_by_dept'', ''proj.analysis_dataset.finance_data__avg_monthly_by_dept_v'')]"
proof -
  let ?w = "world_with ''proj.analysis_dataset.finance_data''
              (table_of [''Department'', ''Amount'', ''Date''])"
  have h1: "validate_table_name ''finance_data'' = Inr ''finance_data''"
    by (simp add: eval_validate)
  have h2: "detect_finance_columns ex_env ?w
              (PROJECT_ID ex_env @ ''.'' @ BIGQUERY_DATASET ex_env @ ''.'' @ ''finance_data'') =
            Inr \<lparr>department = Some ''Department'', amount = Some ''Amount'',
                 date = Some ''Date'', expense_type = None\<rparr>"
    by (simp add: eval_resolver ex_env_def)
  have h3: "\<forall>rid\<in>set (map fst REPORTS). view_id ex_env ''finance_data'' rid \<notin> denied ?w"
    by (simp add: world_with_def empty_world_def)
  from publish_looker_views_full_catalog[OF h1 h2 h3]
  have "fst (publish_looker_views_for_table ex_env ''finance_data'' ?w) =
          Inr (full_catalog ex_env ''finance_data'')"
    by (rule conjunct1)
  then show ?thesis by (simp add: full_catalog_def view_id_def ex_env_def)
qed

text \<open>
  Claim C8. Publishing is idempotent: when a first call returned a mapping, a second call
  on the state the first one left returns the same mapping and leaves that state as it
  is. In that state every view of the mapping exists with a defining query, so the second
  call takes the update branch for each and writes the query it already has, creating no
  object.
\<close>

theorem publish_looker_views_idempotent:
  assumes "publish_looker_views_for_table e t w = (Inr m, w1)"
  shows "publish_looker_views_for_table e t w1 = (Inr m, w1)
       \<and> (\<forall>rid\<in>set (map fst REPORTS).
            map_of m rid = Some (view_id e t rid)
            \<and> (\<exists>v s. objects w1 (view_id e t rid) = Some v \<and> view_query v = Some s))"
proof -
  let ?w0 = "ensure_dataset_exists (BIGQUERY_DATASET e) w"
  let ?fq = "PROJECT_ID e @ ''.'' @ BIGQUERY_DATASET e @ ''.'' @ t"
  from publish_Inr_D[OF assms] obtain cols where v: "validate_table_name t = Inr t"
    and d: "detect_finance_columns e w ?fq = Inr cols" by blast
  from assms have loop: "publish_loop e t ?fq cols REPORTS [] ?w0 = (Inr m, w1)"
    by (simp add: publish_unfold[OF v d])
  note inv = publish_loop_inv[OF loop catalog_distinct]
  from inv have m: "m = full_catalog e t" by (simp add: expected_views_catalog)
  from inv have w1: "w1 = ?w0\<lparr>objects := objects w1\<rparr>" by blast
  have "denied w1 = denied (?w0\<lparr>objects := objects w1\<rparr>)"
    using w1 by (rule arg_cong)
  then have den: "denied w1 = denied w" by simp
  have "datasets w1 = datasets (?w0\<lparr>objects := objects w1\<rparr>)"
    using w1 by (rule arg_cong)
  then have ds: "BIGQUERY_DATASET e \<in> datasets w1" by simp
  have "?fq \<notin> view_id e t ` fst ` set REPORTS"
    using view_id_not_table[of e t] by (metis imageE)
  with inv have "objects w1 ?fq = objects ?w0 ?fq" by blast
  then have same: "objects w1 ?fq = objects w ?fq" by simp
  have d1: "detect_finance_columns e w1 ?fq = Inr cols"
    using detect_finance_columns_cong[OF same] d by (simp only:)
  from inv have all: "\<forall>rm\<in>set REPORTS. view_id e t (fst rm) \<notin> denied w1
             \<and> (\<exists>v s. objects w1 (view_id e t (fst rm)) = Some v \<and> view_query v = Some s
                     \<and> py_format (sql (snd rm)) (format_kwargs ?fq cols) = Inr s)"
    by (simp add: den)
  have "publish_looker_views_for_table e t w1 =
          publish_loop e t ?fq cols REPORTS [] (ensure_dataset_exists (BIGQUERY_DATASET e) w1)"
    by (rule publish_unfold[OF v d1])
  also have "\<dots> = publish_loop e t ?fq cols REPORTS [] w1"
    by (simp add: ensure_dataset_exists_idem[OF ds])
  also have "\<dots> = (Inr (expected_views e t REPORTS []), w1)"
    by (rule publish_loop_fixpoint[OF all])
  finally have second: "publish_looker_views_for_table e t w1 = (Inr m, w1)"
    by (simp add: expected_views_catalog m)
  have views: "\<forall>rid\<in>set (map fst REPORTS).
            map_of m rid = Some (view_id e t rid)
            \<and> (\<exists>v s. objects w1 (view_id e t rid) = Some v \<and> view_query v = Some s)"
  proof
    fix rid assume r: "rid \<in> set (map fst REPORTS)"
    then have "map_of m rid = Some (view_id e t rid)"
      unfolding m by (auto simp add: catalog_ids full_catalog_def)
    moreover from r obtain rm where "rm \<in> set REPORTS" "fst rm = rid" by auto
    with all have "\<exists>v s. objects w1 (view_id e t rid) = Some v \<and> view_query v = Some s"
      by blast
    ultimately show "map_of m rid = Some (view_id e t rid)
            \<and> (\<exists>v s. objects w1 (view_id e t rid) = Some v \<and> view_query v = Some s)" by blast
  qed
  from second views show ?thesis by blast
qed

theorem publish_looker_views_idempotent_witness:
  "fst (publish_looker_views_for_table ex_env ''finance_data''
          (world_with ''proj.analysis_dataset.finance_data''
             (table_of [''Department'', ''Amount'', ''Date'']))) =
     Inr (full_catalog ex_env ''finance_data'')
   \<and> publish_looker_views_for_table ex_env ''finance_data''
       (snd (publish_looker_views_for_table ex_env ''finance_data''
          (world_with ''proj.analysis_dataset.finance_data''
             (table_of [''Department'', ''Amount'', ''Date''])))) =
     (Inr (full_catalog ex_env ''finance_data''),
      snd (publish_looker_views_for_table ex_env ''finance_data''
          (world_with ''proj.analysis_dataset.finance_data''
             (table_of [''Department'', ''Amount'', ''Date'']))))"
proof -
  let ?w = "world_with ''proj.analysis_dataset.finance_data''
              (table_of [''Department'', ''Amount'', ''Date''])"
  have h1: "validate_table_name ''finance_data'' = Inr ''finance_data''"
    by (simp add: eval_validate)
  have h2: "detect_finance_columns ex_env ?w
              (PROJECT_ID ex_env @ ''.'' @ BIGQUERY_DATASET ex_env @ ''.'' @ ''finance_data'') =
            Inr \<lparr>department = Some ''Department'', amount = Some ''Amount'',
                 date = Some ''Date'', expense_type = None\<rparr>"
    by (simp add: eval_resolver ex_env_def)
  have h3: "\<forall>rid\<in>set (map fst REPORTS). view_id ex_env ''finance_data'' rid \<notin> denied ?w"
    by (simp add: world_with_def empty_world_def)
  have f: "fst (publish_looker_views_for_table ex_env ''finance_data'' ?w) =
             Inr (full_catalog ex_env ''finance_data'')"
    by (rule publish_success[OF h1 h2 h3])
  then have p: "publish_looker_views_for_table ex_env ''finance_data'' ?w =
             (Inr (full_catalog ex_env ''finance_data''),
              snd (publish_looker_views_for_table ex_env ''finance_data'' ?w))"
    by (metis prod.collapse)
  from publish_looker_views_idempotent[OF p]
  have "publish_looker_views_for_table ex_env ''finance_data''
          (snd (publish_looker_views_for_table ex_env ''finance_data'' ?w)) =
        (Inr (full_catalog ex_env ''finance_data''),
         snd (publish_looker_views_for_table ex_env ''finance_data'' ?w))"
    by (rule conjunct1)
  with f show ?thesis by (rule conjI)
qed

section \<open>Properties: file names and extensions\<close>

lemma rfind_last_occurrence:
  assumes "c \<notin> set t"
  shows "rfind c (b @ c # t) = int (length b)"
proof -
  have "\<And>x. x \<in> set (rev t) \<Longrightarrow> x \<noteq> c" using assms by auto
  then have "takeWhile (\<lambda>x. x \<noteq> c) (rev t @ c # rev b) =
             rev t @ takeWhile (\<lambda>x. x \<noteq> c) (c # rev b)"
    by (rule takeWhile_append2)
  then have "takeWhile (\<lambda>x. x \<noteq> c) (rev t @ c # rev b) = rev t" by simp
  then show ?thesis by (simp add: rfind_def)
qed

lemma splitext_sql_cases:
  "splitext (b @ ''.sql'') = (b, ''.sql'') \<or> splitext (b @ ''.sql'') = (b @ ''.sql'', [])"
proof -
  have dot: "rfind (CHR ''.'') (b @ ''.sql'') = int (length b)"
    using rfind_last_occurrence[of "CHR ''.''" "''sql''" b] by simp
  show ?thesis
    by (simp add: splitext_def dot Let_def)
qed

lemma endswith_append: "endswith s suffix \<Longrightarrow> \<exists>b. s = b @ suffix"
  unfolding endswith_def by (metis append_take_drop_id)

lemma endswith_last: "endswith s suffix \<Longrightarrow> suffix \<noteq> [] \<Longrightarrow> last s = last suffix"
  using endswith_append[of s suffix] by auto

lemma endswith_sql_not_csv_json:
  assumes "endswith s ''.sql''"
  shows "\<not> endswith s ''.csv'' \<and> \<not> endswith s ''.json''"
proof -
  from endswith_last[OF assms] have l: "last s = CHR ''l''" by simp
  have "endswith s ''.csv'' \<Longrightarrow> last s = CHR ''v''" using endswith_last[of s "''.csv''"] by simp
  moreover have "endswith s ''.json'' \<Longrightarrow> last s = CHR ''n''" using endswith_last[of s "''.json''"] by simp
  ultimately show ?thesis using l by auto
qed

lemma re_match_ident_chars:
  "re_match_ident s \<Longrightarrow> \<forall>c\<in>set s. ident_char c \<or> c = CHR 0x0A"
  by (auto simp add: re_match_ident_iff is_identifier_def list_all_iff)

lemma validated_no_dot:
  assumes "validate_table_name s = Inr t"
  shows "CHR ''.'' \<notin> set s"
proof
  assume "CHR ''.'' \<in> set s"
  moreover from assms have "re_match_ident s" by (simp add: validate_table_name_Inr_iff)
  ultimately have "ident_char (CHR ''.'') \<or> CHR ''.'' = CHR 0x0A"
    using re_match_ident_chars by blast
  then show False by (simp add: ident_char_def)
qed

lemma dot_kept:
  "CHR ''.'' \<in> set s \<Longrightarrow> CHR ''.'' \<in> set (py_lower (py_replace_char (CHR '' '') (CHR ''_'') s))"
proof -
  assume a: "CHR ''.'' \<in> set s"
  have "py_lower_char (if CHR ''.'' = CHR '' '' then CHR ''_'' else CHR ''.'') = CHR ''.''"
    by (simp add: py_lower_char_def)
  then show ?thesis using a
    by (auto simp add: py_lower_def py_replace_char_def image_iff intro!: bexI[of _ "CHR ''.''"])
qed

lemma sql_extension:
  assumes "endswith filename ''.sql''"
      and "validate_table_name
             (py_lower (py_replace_char (CHR '' '') (CHR ''_'') (fst (splitext filename)))) = Inr t"
  shows "py_lower (snd (splitext filename)) = ''.sql''"
proof -
  from endswith_append[OF assms(1)] obtain b where f: "filename = b @ ''.sql''" by blast
  from splitext_sql_cases[of b] show ?thesis
  proof
    assume "splitext (b @ ''.sql'') = (b, ''.sql'')"
    then show ?thesis by (simp add: f eval_case)
  next
    assume s: "splitext (b @ ''.sql'') = (b @ ''.sql'', [])"
    have "CHR ''.'' \<in> set (b @ ''.sql'')" by simp
    then have "CHR ''.'' \<in> set (py_lower (py_replace_char (CHR '' '') (CHR ''_'') (b @ ''.sql'')))"
      by (rule dot_kept)
    with validated_no_dot[OF assms(2)] show ?thesis by (simp add: f s)
  qed
qed

section \<open>Properties: the upload route\<close>

lemma run_analysis_effects:
  "load_jobs (snd (run_analysis e t w)) = load_jobs w
   \<and> published (snd (run_analysis e t w)) = published w
   \<and> blobs (snd (run_analysis e t w)) (b, ''uploads/'' @ x) = blobs w (b, ''uploads/'' @ x)"
  by (simp add: run_analysis_def Let_def upload_blob_def ensure_dataset_exists_def
           split: sum.splits)

lemma route_sql:
  "route_by_extension e ''.sql'' filename content t w =
     (Inr None, publish (topic_path e) [(''name'', filename), (''bucket'', BUCKET_NAME e)]
                  (upload_blob (BUCKET_NAME e) (''uploads/'' @ filename) content w))"
  by (simp add: route_by_extension_def Let_def)

lemma index_sql:
  assumes "endswith filename ''.sql''"
      and "validate_table_name
             (py_lower (py_replace_char (CHR '' '') (CHR ''_'') (fst (splitext filename)))) = Inr t"
  shows "snd (index e (Some (filename, content)) w) =
           snd (run_analysis e t
                  (publish (topic_path e) [(''name'', filename), (''bucket'', BUCKET_NAME e)]
                     (upload_blob (BUCKET_NAME e) (''uploads/'' @ filename) content w)))"
proof -
  from endswith_append[OF assms(1)] have ne: "filename \<noteq> []" by auto
  have ext: "py_lower (snd (splitext filename)) = ''.sql''"
    by (rule sql_extension[OF assms])
  show ?thesis
    by (simp add: index_def ne index_try_def Let_def ext assms(2) route_sql
             split: prod.splits sum.splits py_error.splits)
qed

lemma topic_path_ignores_restore [simp]: "topic_path (e\<lparr>subprocess_run := r\<rparr>) = topic_path e"
  by (simp add: topic_path_def)

lemma run_load_job_ignores_restore [simp]:
  "run_load_job (e\<lparr>subprocess_run := r\<rparr>) = run_load_job e"
  by (intro ext)
     (simp add: run_load_job_def Let_def
        cong: sum.case_cong prod.case_cong option.case_cong if_cong)

lemma load_to_bigquery_ignores_restore [simp]:
  "load_to_bigquery (e\<lparr>subprocess_run := r\<rparr>) = load_to_bigquery e"
  by (intro ext)
     (simp add: load_to_bigquery_def Let_def
        cong: sum.case_cong prod.case_cong option.case_cong if_cong)

lemma run_analysis_ignores_restore [simp]:
  "run_analysis (e\<lparr>subprocess_run := r\<rparr>) = run_analysis e"
  by (intro ext)
     (simp add: run_analysis_def Let_def
        cong: sum.case_cong prod.case_cong option.case_cong if_cong)

lemma route_by_extension_ignores_restore [simp]:
  "route_by_extension (e\<lparr>subprocess_run := r\<rparr>) = route_by_extension e"
  by (intro ext)
     (simp add: route_by_extension_def Let_def
        cong: sum.case_cong prod.case_cong option.case_cong if_cong)

lemma index_ignores_restore:
  "index (e\<lparr>subprocess_run := r\<rparr>) uploaded_file w = index e uploaded_file w"
  by (simp add: index_def index_try_def Let_def
        cong: sum.case_cong prod.case_cong option.case_cong if_cong)

lemma process_upload_sql:
  assumes "endswith file_name ''.sql''"
  shows "process_upload e file_name bucket_name w =
           (Inr (), publish (topic_path e) [(''name'', file_name), (''bucket'', bucket_name)] w)"
  using endswith_sql_not_csv_json[OF assms] assms
  by (simp add: process_upload_def Let_def)

text \<open>
  Claim C5, as amended. For an upload whose file name ends in \<open>.sql\<close> and whose derived
  table name passes the identifier validator, the route issues no load job, stores the
  bytes as they came under \<open>uploads/<filename>\<close>, publishes exactly one message holding
  the name and the bucket, and its response and final state do not depend on the restore
  command. The storage-triggered function, for any name ending in \<open>.sql\<close>, publishes that
  one message and issues no load job.
\<close>

theorem sql_upload_forwarded:
  assumes "endswith filename ''.sql''"
      and "validate_table_name
             (py_lower (py_replace_char (CHR '' '') (CHR ''_'') (fst (splitext filename)))) = Inr t"
  shows "load_jobs (snd (index e (Some (filename, content)) w)) = load_jobs w
       \<and> blobs (snd (index e (Some (filename, content)) w)) (BUCKET_NAME e, ''uploads/'' @ filename) =
           Some content
       \<and> published (snd (index e (Some (filename, content)) w)) =
           published w @ [(topic_path e, [(''name'', filename), (''bucket'', BUCKET_NAME e)])]
       \<and> index (e\<lparr>subprocess_run := r\<rparr>) (Some (filename, content)) w =
           index e (Some (filename, content)) w
       \<and> process_upload e filename bucket_name w =
           (Inr (), publish (topic_path e) [(''name'', filename), (''bucket'', bucket_name)] w)
       \<and> load_jobs (snd (process_upload e filename bucket_name w)) = load_jobs w"
proof -
  let ?w2 = "publish (topic_path e) [(''name'', filename), (''bucket'', BUCKET_NAME e)]
               (upload_blob (BUCKET_NAME e) (''uploads/'' @ filename) content w)"
  let ?w' = "snd (index e (Some (filename, content)) w)"
  have i: "?w' = snd (run_analysis e t ?w2)" by (rule index_sql[OF assms])
  note ra = run_analysis_effects[of e t ?w2 "BUCKET_NAME e" filename]
  have l: "load_jobs ?w' = load_jobs w"
    unfolding i using ra by (simp add: publish_def upload_blob_def)
  have b: "blobs ?w' (BUCKET_NAME e, ''uploads/'' @ filename) = Some content"
    unfolding i using ra by (simp add: publish_def upload_blob_def)
  have p: "published ?w' =
             published w @ [(topic_path e, [(''name'', filename), (''bucket'', BUCKET_NAME e)])]"
    unfolding i using ra by (simp add: publish_def upload_blob_def)
  have r: "index (e\<lparr>subprocess_run := r\<rparr>) (Some (filename, content)) w =
             index e (Some (filename, content)) w"
    by (rule index_ignores_restore)
  have u: "process_upload e filename bucket_name w =
             (Inr (), publish (topic_path e) [(''name'', filename), (''bucket'', bucket_name)] w)"
    by (rule process_upload_sql[OF assms(1)])
  have ul: "load_jobs (snd (process_upload e filename bucket_name w)) = load_jobs w"
    by (simp add: u publish_def)
  from l b p r u ul show ?thesis by (intro conjI)
qed

lemmas eval_route = index_def index_try_def route_by_extension_def splitext_def rfind_def
  py_replace_char_def endswith_def

theorem sql_upload_forwarded_witness:
  "load_jobs (snd (index ex_env (Some (''dump.sql'', ''x'')) empty_world)) = []
   \<and> blobs (snd (index ex_env (Some (''dump.sql'', ''x'')) empty_world)) (''bkt'', ''uploads/dump.sql'') =
       Some ''x''
   \<and> published (snd (index ex_env (Some (''dump.sql'', ''x'')) empty_world)) =
       [(''projects/proj/topics/sql-import-topic'', [(''name'', ''dump.sql''), (''bucket'', ''bkt'')])]"
proof -
  have h1: "endswith ''dump.sql'' ''.sql''" by (simp add: endswith_def)
  have sp: "splitext ''dump.sql'' = (''dump'', ''.sql'')" by (simp add: splitext_def rfind_def)
  have h2: "validate_table_name
              (py_lower (py_replace_char (CHR '' '') (CHR ''_'') (fst (splitext ''dump.sql'')))) =
            Inr ''dump''"
    by (simp add: sp py_replace_char_def eval_validate)
  from sql_upload_forwarded[OF h1 h2, of ex_env "''x''" empty_world]
  show ?thesis by (simp add: topic_path_def ex_env_def empty_world_def)
qed

text \<open>
  Claim C5 as stated covers every file name ending in \<open>.sql\<close>. The route validates the
  derived table name first: for \<open>my-dump.sql\<close> it answers 400 and leaves the state as it
  was, so nothing is stored and no message is published.
\<close>

theorem sql_upload_invalid_name_counterexample:
  "endswith ''my-dump.sql'' ''.sql''
   \<and> index ex_env (Some (''my-dump.sql'', ''x'')) empty_world =
       (Failure 400
          ''Invalid table name. Only letters, numbers, and underscores allowed (max 128 chars)'',
        empty_world)"
proof -
  have sp: "splitext ''my-dump.sql'' = (''my-dump'', ''.sql'')" by (simp add: splitext_def rfind_def)
  have v: "validate_table_name (py_lower (py_replace_char (CHR '' '') (CHR ''_'') ''my-dump'')) =
             Inl (ValueError
               ''Invalid table name. Only letters, numbers, and underscores allowed (max 128 chars)'')"
    by (simp add: py_replace_char_def eval_validate)
  show ?thesis by (simp add: endswith_def index_def index_try_def sp v)
qed

section \<open>Properties: validation before SQL\<close>

lemma fq_table_validated:
  "fq_table e t = Inr fq \<Longrightarrow>
     validate_table_name t = Inr t \<and> fq = PROJECT_ID e @ ''.'' @ BIGQUERY_DATASET e @ ''.'' @ t"
  by (auto simp add: fq_table_def validate_table_name_Inr_iff split: sum.splits)

lemma publish_rejects_invalid:
  "validate_table_name t = Inl err \<Longrightarrow>
     publish_looker_views_for_table e t w = (Inl err, ensure_dataset_exists (BIGQUERY_DATASET e) w)"
  by (simp add: publish_looker_views_for_table_def)

lemma index_rejects_invalid:
  assumes "validate_table_name
             (py_lower (py_replace_char (CHR '' '') (CHR ''_'') (fst (splitext filename)))) =
           Inl (ValueError m)"
      and "filename \<noteq> []"
  shows "index e (Some (filename, content)) w = (Failure 400 m, w)"
  using assms by (simp add: index_def index_try_def Let_def)

text \<open>
  Claim C2. Every table name from a caller is to pass the identifier validator before it
  is put into SQL text. The report and publish paths do so (\<open>fq_table_validated\<close>,
  \<open>publish_rejects_invalid\<close>) and so does the upload route (\<open>index_rejects_invalid\<close>). The
  \<open>/download_bq\<close> path does not. The storage-triggered function names its tables after the
  files (\<open>my-table.csv\<close> gives the table \<open>my-table_csv\<close>); for that name, which the
  validator rejects, the queries handed to the warehouse carry the name as it came.
\<close>

theorem download_bq_unvalidated_name:
  "validate_table_name ''my-table_csv'' =
     Inl (ValueError
       ''Invalid table name. Only letters, numbers, and underscores allowed (max 128 chars)'')
   \<and> queries (snd (download_bq ex_env (Some ''my-table_csv'')
                     (snd (process_upload ex_env ''my-table.csv'' ''bkt''
                        (upload_blob ''bkt'' ''my-table.csv'' ''ab'' empty_world))))) =
     [''SELECT * FROM `proj.analysis_dataset.my-table_csv` LIMIT 10'',
      ''SELECT * FROM `proj.analysis_dataset.my-table_csv` LIMIT 10'',
      ''SELECT * FROM `proj.analysis_dataset.my-table_csv_analysis`'']"
proof -
  have p: "objects (snd (process_upload ex_env ''my-table.csv'' ''bkt''
                        (upload_blob ''bkt'' ''my-table.csv'' ''ab'' empty_world)))
             ''proj.analysis_dataset.my-table_csv'' =
           Some \<lparr>schema = [\<lparr>name = ''c'', field_type = ''STRING''\<rparr>],
                 rows = [[''a''], [''b'']], view_query = None\<rparr>
         \<and> queries (snd (process_upload ex_env ''my-table.csv'' ''bkt''
                        (upload_blob ''bkt'' ''my-table.csv'' ''ab'' empty_world))) = []"
    by (simp add: process_upload_def load_table_from_uri_def run_load_job_def
          load_disposition_def upload_blob_def endswith_def py_replace_char_def ex_decode_def
          ex_env_def empty_world_def Let_def)
  have v: "validate_table_name ''my-table_csv'' =
     Inl (ValueError
       ''Invalid table name. Only letters, numbers, and underscores allowed (max 128 chars)'')"
    by (simp add: eval_validate)
  have q: "queries (snd (download_bq ex_env (Some ''my-table_csv'')
                     (snd (process_upload ex_env ''my-table.csv'' ''bkt''
                        (upload_blob ''bkt'' ''my-table.csv'' ''ab'' empty_world))))) =
     [''SELECT * FROM `proj.analysis_dataset.my-table_csv` LIMIT 10'',
      ''SELECT * FROM `proj.analysis_dataset.my-table_csv` LIMIT 10'',
      ''SELECT * FROM `proj.analysis_dataset.my-table_csv_analysis`'']"
    using p
    by (simp add: download_bq_def run_analysis_def get_table_def
          ensure_dataset_exists_def upload_blob_def ex_env_def Let_def)
  from v q show ?thesis by (rule conjI)
qed

section \<open>Properties: write semantics of the loads\<close>

lemma run_load_job_truncate:
  assumes "decode_file e fmt skip content = Inr (sch, rs)"
  shows "fst (run_load_job e content table_id
                \<lparr>autodetect = a, source_format = fmt, skip_leading_rows = skip,
                 write_disposition = Some WRITE_TRUNCATE\<rparr> w) = Inr ()
       \<and> objects (snd (run_load_job e content table_id
                \<lparr>autodetect = a, source_format = fmt, skip_leading_rows = skip,
                 write_disposition = Some WRITE_TRUNCATE\<rparr> w)) table_id =
           Some \<lparr>schema = sch, rows = rs, view_query = None\<rparr>"
  using assms by (simp add: run_load_job_def load_disposition_def Let_def split: option.splits)

lemma load_to_bigquery_csv:
  assumes "py_lower (snd (splitext filename)) = ''.csv''"
      and "decode_file e CSV (Some 1) content = Inr (sch, rs)"
  shows "fst (load_to_bigquery e content filename t w) = Inr ()
       \<and> objects (snd (load_to_bigquery e content filename t w))
           (PROJECT_ID e @ ''.'' @ BIGQUERY_DATASET e @ ''.'' @ t) =
           Some \<lparr>schema = sch, rows = rs, view_query = None\<rparr>"
  using run_load_job_truncate[OF assms(2)]
  by (simp add: load_to_bigquery_def Let_def assms(1))

lemma run_analysis_keeps_table:
  "objects (snd (run_analysis e t w)) (PROJECT_ID e @ ''.'' @ BIGQUERY_DATASET e @ ''.'' @ t) =
   objects w (PROJECT_ID e @ ''.'' @ BIGQUERY_DATASET e @ ''.'' @ t)"
  by (simp add: run_analysis_def Let_def upload_blob_def split: sum.splits)

lemma index_csv_upload_replaces:
  assumes "py_lower (snd (splitext filename)) = ''.csv''" and "filename \<noteq> []"
      and "validate_table_name
             (py_lower (py_replace_char (CHR '' '') (CHR ''_'') (fst (splitext filename)))) = Inr t"
      and "decode_file e CSV (Some 1) content = Inr (sch, rs)"
  shows "objects (snd (index e (Some (filename, content)) w))
           (PROJECT_ID e @ ''.'' @ BIGQUERY_DATASET e @ ''.'' @ t) =
         Some \<lparr>schema = sch, rows = rs, view_query = None\<rparr>"
proof -
  obtain u w1 where l: "load_to_bigquery e content filename t w = (u, w1)"
    by (cases "load_to_bigquery e content filename t w")
  from load_to_bigquery_csv[OF assms(1,4), where t=t and w=w] l
  have u: "u = Inr ()"
    and o: "objects w1 (PROJECT_ID e @ ''.'' @ BIGQUERY_DATASET e @ ''.'' @ t) =
              Some \<lparr>schema = sch, rows = rs, view_query = None\<rparr>"
    by simp_all
  have "snd (index e (Some (filename, content)) w) = snd (run_analysis e t w1)"
    by (simp add: index_def index_try_def Let_def assms(1,2,3) route_by_extension_def l u
             split: prod.splits sum.splits py_error.splits)
  then show ?thesis using run_analysis_keeps_table[of e t w1] o by simp
qed

text \<open>
  Claim C6. A second upload of a same-named file is to replace the table's content. The
  web route does (\<open>index_csv_upload_replaces\<close>: whatever the table held, after the upload
  it holds the rows of this file). The storage-triggered function sets no write
  disposition on its load job, which therefore appends: after \<open>sales.csv\<close> is processed
  twice, with two rows each time, the table holds the four rows of both files.
\<close>

theorem process_upload_twice_appends:
  "ex_decode CSV None ''cd'' = Inr ([\<lparr>name = ''c'', field_type = ''STRING''\<rparr>], [[''c''], [''d'']])
   \<and> map_option rows
       (objects
          (snd (process_upload ex_env ''sales.csv'' ''bkt''
             (upload_blob ''bkt'' ''sales.csv'' ''cd''
                (snd (process_upload ex_env ''sales.csv'' ''bkt''
                   (upload_blob ''bkt'' ''sales.csv'' ''ab'' empty_world))))))
          ''proj.analysis_dataset.sales_csv'') =
     Some [[''a''], [''b''], [''c''], [''d'']]"
  by (simp add: process_upload_def load_table_from_uri_def run_load_job_def load_disposition_def
        upload_blob_def endswith_def py_replace_char_def ex_decode_def ex_env_def empty_world_def
        Let_def)

section \<open>Properties: the restore worker\<close>

text \<open>
  Claim C9, as amended. For a message that carries a name: when the name does not end in
  \<open>.sql\<close> the worker prints the skip line and returns, whatever the restore command would
  do; when it ends in \<open>.sql\<close> and the restore command runs, the worker returns normally,
  having printed the error line for a non-zero exit status and the completion line for
  zero; when the command cannot be started, the exception raised is not caught.
\<close>

theorem import_sql_handles_message:
  assumes "map_of pubsub_message ''name'' = Some fn"
  shows "(\<not> endswith fn ''.sql'' \<longrightarrow>
            import_sql e pubsub_message = (Inr (), [Skipping_non_SQL_file fn]))
       \<and> (endswith fn ''.sql'' \<longrightarrow>
            (\<forall>rc. subprocess_run e (import_command e
                      (''gs://'' @ py_str (map_of pubsub_message ''bucket'') @ ''/'' @ fn)) = Inr rc
               \<longrightarrow> import_sql e pubsub_message =
                     (Inr (), [if rc \<noteq> 0 then Error_importing fn (CalledProcessError rc)
                               else Import_completed_for fn])))
       \<and> (endswith fn ''.sql'' \<longrightarrow>
            (\<forall>err. subprocess_run e (import_command e
                      (''gs://'' @ py_str (map_of pubsub_message ''bucket'') @ ''/'' @ fn)) = Inl err
               \<longrightarrow> import_sql e pubsub_message = (Inl err, [])))"
  using assms by (simp add: import_sql_def Let_def)

theorem import_sql_handles_message_witness:
  "import_sql (ex_env\<lparr>subprocess_run := (\<lambda>args. Inr 1)\<rparr>)
     [(''name'', ''dump.sql''), (''bucket'', ''bkt'')] =
     (Inr (), [Error_importing ''dump.sql'' (CalledProcessError 1)])
   \<and> import_sql ex_env [(''name'', ''notes.txt''), (''bucket'', ''bkt'')] =
     (Inr (), [Skipping_non_SQL_file ''notes.txt''])"
proof -
  have h1: "map_of [(''name'', ''dump.sql''), (''bucket'', ''bkt'')] ''name'' = Some ''dump.sql''"
    by simp
  have h2: "map_of [(''name'', ''notes.txt''), (''bucket'', ''bkt'')] ''name'' = Some ''notes.txt''"
    by simp
  have e1: "endswith ''dump.sql'' ''.sql''" by (simp add: endswith_def)
  have e2: "\<not> endswith ''notes.txt'' ''.sql''" by (simp add: endswith_def)
  from import_sql_handles_message[OF h1, of "ex_env\<lparr>subprocess_run := (\<lambda>args. Inr 1)\<rparr>"] e1
  have a: "import_sql (ex_env\<lparr>subprocess_run := (\<lambda>args. Inr 1)\<rparr>)
             [(''name'', ''dump.sql''), (''bucket'', ''bkt'')] =
           (Inr (), [Error_importing ''dump.sql'' (CalledProcessError 1)])"
    by simp
  from import_sql_handles_message[OF h2, of ex_env] e2
  have b: "import_sql ex_env [(''name'', ''notes.txt''), (''bucket'', ''bkt'')] =
           (Inr (), [Skipping_non_SQL_file ''notes.txt''])"
    by simp
  from a b show ?thesis by (rule conjI)
qed

text \<open>
  Claim C9 as stated has every restore failure caught. The handler names one exception
  class, that of a non-zero exit status: when the restore command cannot be started the
  worker raises.
\<close>

theorem import_sql_start_failure_counterexample:
  "endswith ''dump.sql'' ''.sql''
   \<and> import_sql (ex_env\<lparr>subprocess_run := (\<lambda>args. Inl (OSError ''gcloud''))\<rparr>)
       [(''name'', ''dump.sql''), (''bucket'', ''bkt'')] =
     (Inl (OSError ''gcloud''), [])"
  by (simp add: import_sql_def endswith_def)

lemma import_sql_without_name:
  "map_of pubsub_message ''name'' = None \<Longrightarrow>
     import_sql e pubsub_message = (Inl (AttributeError no_endswith), [])"
  by (simp add: import_sql_def)

end
